theory Spec2Isabelle
  imports Main "HOL-Library.Sublist"
begin

section \<open>Starboard scoring and synchronisation: a model of \<open>starboard_funcs.py\<close>\<close>

subsection \<open>Python values\<close>

text \<open>
  A Python \<open>str\<close> is a sequence of Unicode code points and \<open>len\<close> counts code points,
  so a string is modelled as the list of its code points. \<open>ascii\<close> embeds an ASCII
  literal.
\<close>

type_synonym pystr = "nat list"

definition ascii :: "string \<Rightarrow> pystr" where
  "ascii s = map of_char s"

text \<open>\<open>str(n)\<close> for an integer: the decimal digits, with a leading minus sign.\<close>

function digits :: "nat \<Rightarrow> pystr" where
  "digits n = (if n < 10 then [48 + n] else digits (n div 10) @ [48 + n mod 10])"
  by pat_completeness auto
termination
  by (relation "measure id") auto

declare digits.simps [simp del]

definition str_int :: "int \<Rightarrow> pystr" where
  "str_int i = (if i < 0 then 45 # digits (nat (- i)) else digits (nat i))"

text \<open>\<open>s.endswith(t)\<close>.\<close>

definition endswith :: "pystr \<Rightarrow> pystr \<Rightarrow> bool" where
  "endswith s t = suffix t s"

text \<open>\<open>sep.join(xs)\<close>.\<close>

fun join :: "pystr \<Rightarrow> pystr list \<Rightarrow> pystr" where
  "join sep [] = []"
| "join sep [x] = x"
| "join sep (x # y # ys) = x @ sep @ join sep (y # ys)"

text \<open>The exceptions that the modelled code raises, catches or lets through.\<close>

datatype exn = Forbidden | NotFound | AttributeError | TypeError | ValueError | KeyError
  | InvalidArgument

datatype timeout_error = TimeoutError

subsection \<open>Rows of the store\<close>

text \<open>
  The rows are the dictionaries that the queries return; a field is a key that
  \<open>starboard_funcs.py\<close> reads. \<open>NUMERIC\<close> and \<open>SMALLINT\<close> columns are integers.
\<close>

record sql_starboard =
  sb_id :: int
  sb_guild_id :: int
  sb_required :: int
  sb_required_remove :: int
  sb_self_star :: bool
  sb_allow_bots :: bool
  sb_allow_nsfw :: bool
  sb_link_edits :: bool
  sb_link_deletes :: bool
  sb_star_emojis :: "pystr list"
  sb_display_emoji :: pystr
  sb_color :: "pystr option"
  sb_regex :: pystr
  sb_exclude_regex :: pystr
  sb_autoreact :: bool

record sql_message =
  msg_id :: int
  msg_guild_id :: int
  msg_channel_id :: int
  msg_author_id :: "int option"
  msg_is_nsfw :: bool
  msg_forced :: "int list"
  msg_trashed :: bool
  msg_frozen :: bool

record sql_user =
  usr_id :: int
  usr_is_bot :: bool

record sql_starboard_message =
  sbm_id :: int
  sbm_orig_id :: int
  sbm_starboard_id :: int
  sbm_points :: int

record sql_reaction =
  rct_id :: int
  rct_emoji :: pystr
  rct_message_id :: int

record sql_reaction_user =
  ru_reaction_id :: int
  ru_user_id :: int

record database =
  db_starboards :: "sql_starboard list"
  db_messages :: "sql_message list"
  db_users :: "sql_user list"
  db_starboard_messages :: "sql_starboard_message list"
  db_reactions :: "sql_reaction list"
  db_reaction_users :: "sql_reaction_user list"

subsection \<open>Messages, embeds and files of the chat platform\<close>

text \<open>
  The part of \<open>discord.Embed\<close>, \<open>discord.Attachment\<close>, \<open>discord.File\<close> and
  \<open>discord.Message\<close> that the code reads or writes. \<open>None\<close> stands for \<open>Embed.Empty\<close>.
\<close>

record embed_field =
  ef_name :: pystr
  ef_value :: pystr
  ef_inline :: bool

record embed =
  em_type :: pystr
  em_title :: "pystr option"
  em_url :: "pystr option"
  em_description :: "pystr option"
  em_fields :: "embed_field list"
  em_footer_text :: "pystr option"
  em_image_url :: "pystr option"
  em_thumbnail_url :: "pystr option"
  em_color :: "int option"
  em_author_name :: "pystr option"
  em_author_icon_url :: "pystr option"
  em_timestamp :: "int option"

record attachment =
  att_filename :: pystr
  att_url :: pystr
  att_spoiler :: bool

record discord_file =
  file_filename :: pystr

text \<open>
  What \<open>message.reference.resolved\<close> holds: nothing, a message (of which its text,
  author and jump link are read), or a \<open>DeletedReferencedMessage\<close> with its three ids.
\<close>

record resolved_message =
  rm_author :: pystr
  rm_system_content :: pystr
  rm_jump_url :: pystr

datatype resolved = ResolvedMessage resolved_message | DeletedReferencedMessage int int int

record reference =
  ref_message_id :: int
  ref_resolved :: "resolved option"

datatype emoji = UnicodeEmoji pystr | CustomEmoji int

record discord_message =
  dm_id :: int
  dm_guild_id :: int
  dm_channel_id :: int
  dm_channel_nsfw :: bool
  dm_author :: pystr
  dm_avatar_url :: pystr
  dm_system_content :: pystr
  dm_attachments :: "attachment list"
  dm_embeds :: "embed list"
  dm_reference :: "reference option"
  dm_created_at :: int
  dm_reactions :: "emoji list"

text \<open>\<open>message.jump_url\<close> and \<open>channel.mention\<close>, as the library computes them.\<close>

definition channels_url :: "int \<Rightarrow> int \<Rightarrow> int \<Rightarrow> pystr" where
  "channels_url guild_id channel_id message_id =
     ascii ''https://discord.com/channels/'' @ str_int guild_id @ ascii ''/'' @
     str_int channel_id @ ascii ''/'' @ str_int message_id"

definition jump_url :: "discord_message \<Rightarrow> pystr" where
  "jump_url m = channels_url (dm_guild_id m) (dm_channel_id m) (dm_id m)"

definition mention :: "int \<Rightarrow> pystr" where
  "mention channel_id = ascii ''<#'' @ str_int channel_id @ ascii ''>''"

definition empty_embed :: embed where
  "empty_embed =
     \<lparr>em_type = ascii ''rich'', em_title = None, em_url = None, em_description = None,
      em_fields = [], em_footer_text = None, em_image_url = None, em_thumbnail_url = None,
      em_color = None, em_author_name = None, em_author_icon_url = None,
      em_timestamp = None\<rparr>"

definition add_field :: "pystr \<Rightarrow> pystr \<Rightarrow> bool \<Rightarrow> embed \<Rightarrow> embed" where
  "add_field name val inline e =
     e\<lparr>em_fields := em_fields e @ [\<lparr>ef_name = name, ef_value = val, ef_inline = inline\<rparr>]\<rparr>"

subsection \<open>What the code takes from outside this file\<close>

text \<open>
  The helpers of \<open>app.utils\<close>, the bot's theme colour and Python's \<open>int(s, base)\<close> are
  parameters: \<open>safe_regex\<close> yields the truth value of the match or raises
  \<open>TimeoutError\<close>; \<open>py_int\<close> yields \<open>None\<close> where \<open>int\<close> raises \<open>ValueError\<close>.
\<close>

record environment =
  escmd :: "pystr \<Rightarrow> pystr"
  safe_regex :: "pystr \<Rightarrow> pystr \<Rightarrow> timeout_error + bool"
  pretty_emoji_string :: "pystr \<Rightarrow> int \<Rightarrow> pystr"
  py_int :: "pystr \<Rightarrow> nat \<Rightarrow> int option"
  theme_color :: int

subsection \<open>\<open>calculate_points\<close>\<close>

text \<open>
  The two queries: the reactions of the message, and the rows of \<open>reaction_users\<close>
  whose reaction is one of them.
\<close>

definition fetch_reactions :: "database \<Rightarrow> int \<Rightarrow> sql_reaction list" where
  "fetch_reactions db mid = filter (\<lambda>r. rct_message_id r = mid) (db_reactions db)"

definition fetch_reaction_users :: "database \<Rightarrow> int list \<Rightarrow> sql_reaction_user list" where
  "fetch_reaction_users db ids = filter (\<lambda>r. ru_reaction_id r \<in> set ids) (db_reaction_users db)"

text \<open>The dictionary \<open>reactions\<close>: a later row replaces an earlier one with the same id.\<close>

fun reactions_dict :: "sql_reaction list \<Rightarrow> (int \<rightharpoonup> pystr) \<Rightarrow> (int \<rightharpoonup> pystr)" where
  "reactions_dict [] d = d"
| "reactions_dict (r # rs) d = reactions_dict rs (d(rct_id r \<mapsto> rct_emoji r))"

text \<open>
  The counting loop over \<open>reaction_users\<close>, with the set \<open>used_users\<close> and the counter
  \<open>points\<close> as its state. A reaction id missing from the dictionary is a \<open>KeyError\<close>.
\<close>

fun count_loop ::
  "(int \<rightharpoonup> pystr) \<Rightarrow> sql_starboard \<Rightarrow> sql_message \<Rightarrow> sql_reaction_user list \<Rightarrow>
   int set \<Rightarrow> int \<Rightarrow> exn + int" where
  "count_loop reactions starboard message [] used_users points = Inr points"
| "count_loop reactions starboard message (r # rs) used_users points =
     (if ru_user_id r \<in> used_users then
        count_loop reactions starboard message rs used_users points
      else case reactions (ru_reaction_id r) of
        None \<Rightarrow> Inl KeyError
      | Some emoji \<Rightarrow>
          if emoji \<notin> set (sb_star_emojis starboard) then
            count_loop reactions starboard message rs used_users points
          else if \<not> sb_self_star starboard \<and> Some (ru_user_id r) = msg_author_id message then
            count_loop reactions starboard message rs used_users points
          else
            count_loop reactions starboard message rs
              (insert (ru_user_id r) used_users) (points + 1))"

definition calculate_points :: "database \<Rightarrow> sql_message \<Rightarrow> sql_starboard \<Rightarrow> exn + int" where
  "calculate_points db message starboard =
     (let reactions0 = fetch_reactions db (msg_id message);
          reaction_users = fetch_reaction_users db (map rct_id reactions0);
          reactions = reactions_dict reactions0 Map.empty
      in count_loop reactions starboard message reaction_users {} 0)"


subsection \<open>The chat platform and the message cache\<close>

text \<open>
  Modelled from the spec: the message cache (\<open>bot.cache.fetch_message\<close>) and the
  channel primitives \<open>send\<close>, \<open>edit\<close>, \<open>delete\<close> and \<open>react\<close>, which are not among the
  sources. The platform holds the messages that exist, the channels in which the bot may
  send, edit, delete and react, the custom emojis of each guild and the id of the next
  message. The cache is a collection of its own, the messages that it resolves: it is
  best-effort, so it may lack a message that exists and may still hold one that is
  gone. Each primitive fails with \<open>Forbidden\<close> where the permission is missing; \<open>edit\<close>,
  \<open>delete\<close> and \<open>react\<close> fail with \<open>NotFound\<close> on a message that is gone. The cache
  changes on the events of the gateway (\<open>cache_events.py\<close>), not by a primitive.
\<close>

record world =
  w_messages :: "discord_message list"
  w_cache :: "discord_message list"
  w_can_send :: "int \<Rightarrow> bool"
  w_can_edit :: "int \<Rightarrow> bool"
  w_can_delete :: "int \<Rightarrow> bool"
  w_can_react :: "int \<Rightarrow> bool"
  w_guild_emojis :: "int \<Rightarrow> int list"
  w_next_id :: int
  w_bot_name :: pystr
  w_bot_avatar_url :: pystr

definition fetch_message :: "world \<Rightarrow> int \<Rightarrow> int \<Rightarrow> int \<Rightarrow> discord_message option" where
  "fetch_message w guild_id channel_id message_id =
     find (\<lambda>m. dm_guild_id m = guild_id \<and> dm_channel_id m = channel_id \<and> dm_id m = message_id)
       (w_cache w)"

definition same_message :: "discord_message \<Rightarrow> discord_message \<Rightarrow> bool" where
  "same_message m x = (dm_channel_id x = dm_channel_id m \<and> dm_id x = dm_id m)"

definition exists_message :: "world \<Rightarrow> discord_message \<Rightarrow> bool" where
  "exists_message w m = list_ex (same_message m) (w_messages w)"

definition file_attachment :: "int \<Rightarrow> int \<Rightarrow> discord_file \<Rightarrow> attachment" where
  "file_attachment channel_id message_id f =
     \<lparr>att_filename = file_filename f,
      att_url = ascii ''https://cdn.discordapp.com/attachments/'' @ str_int channel_id @
        ascii ''/'' @ str_int message_id @ ascii ''/'' @ file_filename f,
      att_spoiler = prefix (ascii ''SPOILER_'') (file_filename f)\<rparr>"

definition channel_send ::
  "world \<Rightarrow> int \<Rightarrow> int \<Rightarrow> pystr \<Rightarrow> embed option \<Rightarrow> discord_file list \<Rightarrow>
   exn + (discord_message \<times> world)" where
  "channel_send w guild_id channel_id content emb files =
     (if \<not> w_can_send w channel_id then Inl Forbidden
      else
        let m = \<lparr>dm_id = w_next_id w, dm_guild_id = guild_id, dm_channel_id = channel_id,
                 dm_channel_nsfw = False, dm_author = w_bot_name w,
                 dm_avatar_url = w_bot_avatar_url w, dm_system_content = content,
                 dm_attachments = map (file_attachment channel_id (w_next_id w)) files,
                 dm_embeds = (case emb of None \<Rightarrow> [] | Some e \<Rightarrow> [e]),
                 dm_reference = None, dm_created_at = w_next_id w, dm_reactions = []\<rparr>
        in Inr (m, w\<lparr>w_messages := w_messages w @ [m], w_next_id := w_next_id w + 1\<rparr>))"

text \<open>\<open>edit(content=..., embed=...)\<close>; \<open>emb = None\<close> is a call without the \<open>embed\<close> argument.\<close>

definition message_edit ::
  "world \<Rightarrow> discord_message \<Rightarrow> pystr \<Rightarrow> embed option \<Rightarrow> exn + world" where
  "message_edit w m content emb =
     (if \<not> w_can_edit w (dm_channel_id m) then Inl Forbidden
      else if \<not> exists_message w m then Inl NotFound
      else Inr (w\<lparr>w_messages :=
        map (\<lambda>x. if same_message m x
                  then (case emb of
                          None \<Rightarrow> x\<lparr>dm_system_content := content\<rparr>
                        | Some e \<Rightarrow> x\<lparr>dm_system_content := content, dm_embeds := [e]\<rparr>)
                  else x) (w_messages w)\<rparr>))"


definition message_delete :: "world \<Rightarrow> discord_message \<Rightarrow> exn + world" where
  "message_delete w m =
     (if \<not> w_can_delete w (dm_channel_id m) then Inl Forbidden
      else if \<not> exists_message w m then Inl NotFound
      else Inr (w\<lparr>w_messages := filter (\<lambda>x. \<not> same_message m x) (w_messages w)\<rparr>))"

text \<open>\<open>add_reaction(emoji)\<close>; it refuses \<open>None\<close> before it reaches the platform.\<close>

definition add_reaction :: "world \<Rightarrow> discord_message \<Rightarrow> emoji option \<Rightarrow> exn + world" where
  "add_reaction w m emoji_arg =
     (case emoji_arg of
        None \<Rightarrow> Inl InvalidArgument
      | Some e \<Rightarrow>
          if \<not> w_can_react w (dm_channel_id m) then Inl Forbidden
          else if \<not> exists_message w m then Inl NotFound
          else Inr (w\<lparr>w_messages :=
            map (\<lambda>x. if same_message m x \<and> e \<notin> set (dm_reactions x)
                      then x\<lparr>dm_reactions := dm_reactions x @ [e]\<rparr> else x) (w_messages w)\<rparr>))"

subsection \<open>The store\<close>

text \<open>The queries and statements that \<open>starboard_funcs.py\<close> itself spells out.\<close>

definition fetchrow_starboard_message ::
  "database \<Rightarrow> int \<Rightarrow> int \<Rightarrow> sql_starboard_message option" where
  "fetchrow_starboard_message db orig_id starboard_id =
     find (\<lambda>r. sbm_orig_id r = orig_id \<and> sbm_starboard_id r = starboard_id)
       (db_starboard_messages db)"

definition execute_set_points :: "int \<Rightarrow> int \<Rightarrow> database \<Rightarrow> database" where
  "execute_set_points points message_id db =
     db\<lparr>db_starboard_messages :=
       map (\<lambda>r. if sbm_id r = message_id then r\<lparr>sbm_points := points\<rparr> else r)
         (db_starboard_messages db)\<rparr>"

definition execute_delete :: "int \<Rightarrow> database \<Rightarrow> database" where
  "execute_delete message_id db =
     db\<lparr>db_starboard_messages :=
       filter (\<lambda>r. sbm_id r \<noteq> message_id) (db_starboard_messages db)\<rparr>"

text \<open>
  Modelled from the spec: the methods of \<open>bot.db\<close>, which are not among the sources.
  \<open>create_starboard_message(mirror_id, orig_id, starboard_id)\<close> adds the link, with no
  points yet (zero); \<open>get_message\<close> and \<open>get_user\<close> return the row with the id or
  \<open>None\<close>; \<open>get_starboards\<close> returns the starboards of the guild.
\<close>

definition create_starboard_message :: "int \<Rightarrow> int \<Rightarrow> int \<Rightarrow> database \<Rightarrow> database" where
  "create_starboard_message mirror_id orig_id starboard_id db =
     db\<lparr>db_starboard_messages := db_starboard_messages db @
       [\<lparr>sbm_id = mirror_id, sbm_orig_id = orig_id, sbm_starboard_id = starboard_id,
         sbm_points = 0\<rparr>]\<rparr>"




subsection \<open>The state of a run\<close>

text \<open>
  A run changes the store and the platform. The trace lists, in order, the statements
  sent to the store, the calls to the platform and the notifications dispatched to the
  operators, so that what a run attempted can be stated.
\<close>

datatype event =
    Guild_log pystr pystr int
  | Db_set_points int int
  | Db_delete int
  | Db_create int int int
  | Remote_send int pystr "embed option" "discord_file list"
  | Remote_edit int pystr "embed option"
  | Remote_edit_embed int embed
  | Remote_delete int
  | Remote_react int "emoji option"

record state =
  st_db :: database
  st_world :: world
  st_trace :: "event list"

definition emit :: "event \<Rightarrow> state \<Rightarrow> state" where
  "emit ev st = st\<lparr>st_trace := st_trace st @ [ev]\<rparr>"

text \<open>How a call ends: it returns, or an exception leaves it.\<close>

datatype outcome = Returned | Raised exn


subsection \<open>\<open>embed_message\<close>\<close>

definition nl :: pystr where
  "nl = [10]"

definition ZERO_WIDTH_SPACE :: pystr where
  "ZERO_WIDTH_SPACE = [8203]"

text \<open>\<open>s[:k]\<close>: a negative \<open>k\<close> counts from the end.\<close>

definition slice_to :: "pystr \<Rightarrow> int \<Rightarrow> pystr" where
  "slice_to s k = (if k < 0 then take (nat (int (length s) + k)) s else take (nat k) s)"

text \<open>
  An entry of the list \<open>urls\<close>: an upload carries its file; the others carry the
  \<open>type\<close> and \<open>show_link\<close> keys, and a display link that may be \<open>Empty\<close>.
\<close>

datatype url_entry =
    Upload pystr pystr bool discord_file
  | Linked pystr "pystr option" pystr pystr bool

fun ue_name :: "url_entry \<Rightarrow> pystr" where
  "ue_name (Upload name url spoiler f) = name"
| "ue_name (Linked name display_url url type show_link) = name"

fun ue_url :: "url_entry \<Rightarrow> pystr" where
  "ue_url (Upload name url spoiler f) = url"
| "ue_url (Linked name display_url url type show_link) = url"

fun ue_show_link :: "url_entry \<Rightarrow> bool" where
  "ue_show_link (Upload name url spoiler f) = True"
| "ue_show_link (Linked name display_url url type show_link) = show_link"

text \<open>The first loop: one entry for each attachment, with the file \<open>to_file()\<close> gives.\<close>

definition attachment_entry :: "attachment \<Rightarrow> url_entry" where
  "attachment_entry a =
     Upload (att_filename a) (att_url a) (att_spoiler a) \<lparr>file_filename = att_filename a\<rparr>"

text \<open>The body of the loop over \<open>message.embeds\<close>, on the pair of \<open>content\<close> and \<open>urls\<close>.\<close>

definition embed_step :: "environment \<Rightarrow> pystr \<times> url_entry list \<Rightarrow> embed \<Rightarrow> pystr \<times> url_entry list" where
  "embed_step env cu e =
     (case cu of (content, urls) \<Rightarrow>
      if em_type e = ascii ''rich'' \<or> em_type e = ascii ''article'' then
        let content =
              (case em_title e of
                 Some title \<Rightarrow>
                   (case em_url e of
                      None \<Rightarrow> content @ nl @ nl @ ascii ''__**'' @ escmd env title @ ascii ''**__'' @ nl
                    | Some url \<Rightarrow>
                        content @ nl @ nl @ ascii ''__**['' @ escmd env title @ ascii ''](''
                          @ url @ ascii '')**__'' @ nl)
               | None \<Rightarrow> content @ nl);
            content =
              content @ (case em_description e of Some d \<Rightarrow> d @ nl | None \<Rightarrow> []);
            content =
              foldl (\<lambda>c f. c @ (nl @ ascii ''**'' @ escmd env (ef_name f) @ ascii ''**'' @ nl)
                              @ (ef_value f @ nl)) content (em_fields e);
            content =
              (case em_footer_text e of
                 Some t \<Rightarrow> content @ nl @ escmd env t @ nl
               | None \<Rightarrow> content);
            urls =
              (case em_image_url e of
                 Some u \<Rightarrow> urls @ [Linked (ascii ''Embed Image'') (Some u) u (ascii ''image'') False]
               | None \<Rightarrow> urls);
            urls =
              (case em_thumbnail_url e of
                 Some u \<Rightarrow>
                   urls @ [Linked (ascii ''Embed Thumbnail'') (Some u) u (ascii ''image'') False]
               | None \<Rightarrow> urls)
        in (content, urls)
      else if em_type e = ascii ''image'' then
        (case em_url e of
           Some u \<Rightarrow>
             (content, urls @ [Linked (ascii ''Image'') (em_thumbnail_url e) u (ascii ''image'') True])
         | None \<Rightarrow> (content, urls))
      else if em_type e = ascii ''gifv'' then
        (case em_url e of
           Some u \<Rightarrow>
             (content, urls @ [Linked (ascii ''GIF'') (em_thumbnail_url e) u (ascii ''gif'') True])
         | None \<Rightarrow> (content, urls))
      else if em_type e = ascii ''video'' then
        (case em_url e of
           Some u \<Rightarrow>
             (content, urls @ [Linked (ascii ''Video'') (em_thumbnail_url e) u (ascii ''video'') True])
         | None \<Rightarrow> (content, urls))
      else (content, urls))"

text \<open>The text of the source message followed by the text of its embeds.\<close>

definition accumulated_content :: "environment \<Rightarrow> discord_message \<Rightarrow> pystr \<times> url_entry list" where
  "accumulated_content env message =
     foldl (embed_step env)
       (dm_system_content message, map attachment_entry (dm_attachments message))
       (dm_embeds message)"

text \<open>The truncation: \<open>to_remove = len(content + " ...") - 2048\<close>, \<open>content[:-to_remove]\<close>.\<close>

definition truncate_content :: "pystr \<Rightarrow> pystr" where
  "truncate_content content =
     (if length content > 2048 then
        let to_remove = int (length (content @ ascii '' ...'')) - 2048
        in slice_to content (- to_remove)
      else content)"

text \<open>
  The reply: the field \<open>Replying to ...\<close> and the text \<open>ref_jump\<close>. Where the reference
  is not resolved and the cache does not find the message either, \<open>ref_message\<close> is
  \<open>None\<close> and reading its \<open>guild_id\<close> raises \<open>AttributeError\<close>.
\<close>

definition reply_field :: "pystr option \<Rightarrow> pystr \<Rightarrow> embed \<Rightarrow> embed" where
  "reply_field ref_author ref_content e =
     add_field
       (ascii ''Replying to '' @
          (case ref_author of
             None \<Rightarrow> ascii ''Unknown''
           | Some a \<Rightarrow> if a = [] then ascii ''Unknown'' else a))
       (if ref_content = [] then ascii ''*File Only*'' else ref_content) False e"

definition reply_jump :: "pystr \<Rightarrow> pystr \<Rightarrow> pystr" where
  "reply_jump ref_author url =
     ascii ''**[Replying to '' @ ref_author @ ascii ''](''  @ url @ ascii '')**'' @ nl"

definition reference_part ::
  "world \<Rightarrow> discord_message \<Rightarrow> embed \<Rightarrow> exn + (embed \<times> pystr)" where
  "reference_part w message e =
     (case dm_reference message of
        None \<Rightarrow> Inr (e, [])
      | Some reference \<Rightarrow>
          (case ref_resolved reference of
             None \<Rightarrow>
               (case fetch_message w (dm_guild_id message) (dm_channel_id message)
                       (ref_message_id reference) of
                  None \<Rightarrow> Inl AttributeError
                | Some ref_message \<Rightarrow>
                    Inr (reply_field (Some (dm_author ref_message))
                           (dm_system_content ref_message) e,
                         reply_jump (dm_author ref_message) (jump_url ref_message)))
           | Some (ResolvedMessage r) \<Rightarrow>
               Inr (reply_field (Some (rm_author r)) (rm_system_content r) e,
                    reply_jump (rm_author r) (rm_jump_url r))
           | Some (DeletedReferencedMessage guild_id channel_id message_id) \<Rightarrow>
               Inr (reply_field None (ascii ''*Message was deleted*'') e,
                    ascii ''**[Replying to Unknown (deleted)]('' @
                      channels_url guild_id channel_id message_id @ ascii '')**'' @ nl)))"

definition image_types :: "pystr list" where
  "image_types =
     [ascii ''png'', ascii ''jpg'', ascii ''jpeg'', ascii ''gif'', ascii ''gifv'',
      ascii ''svg'', ascii ''webp'']"

text \<open>
  The body of the loop over \<open>urls\<close>, on the embed, the flag \<open>image_used\<close> and the list
  \<open>extra_attachments\<close>.
\<close>

fun image_step ::
  "bool \<Rightarrow> embed \<times> bool \<times> discord_file list \<Rightarrow> url_entry \<Rightarrow> embed \<times> bool \<times> discord_file list" where
  "image_step nsfw (e, image_used, extra) (Upload name url spoiler f) =
     (if list_ex (endswith url) image_types \<and> \<not> nsfw \<and> \<not> spoiler \<and> \<not> image_used then
        (e\<lparr>em_image_url := Some url\<rparr>, True, extra)
      else
        (e, image_used,
         extra @ [if nsfw then f\<lparr>file_filename := ascii ''SPOILER_'' @ file_filename f\<rparr> else f]))"
| "image_step nsfw (e, image_used, extra) (Linked name display_url url type show_link) =
     (if \<not> nsfw \<and> \<not> image_used then (e\<lparr>em_image_url := display_url\<rparr>, True, extra)
      else (e, image_used, extra))"

definition link_text :: "url_entry \<Rightarrow> pystr" where
  "link_text d = ascii ''**['' @ ue_name d @ ascii ''](''  @ ue_url d @ ascii '')**''"

definition embed_message ::
  "environment \<Rightarrow> world \<Rightarrow> discord_message \<Rightarrow> pystr option \<Rightarrow>
   exn + (embed \<times> discord_file list)" where
  "embed_message env w message color =
     (let nsfw = dm_channel_nsfw message;
          content = truncate_content (fst (accumulated_content env message));
          urls = snd (accumulated_content env message)
      in case (case color of None \<Rightarrow> Some (theme_color env) | Some c \<Rightarrow> py_int env c 16) of
           None \<Rightarrow> Inl ValueError
         | Some col \<Rightarrow>
             (case reference_part w message
                     (empty_embed\<lparr>em_color := Some col, em_description := Some content,
                        em_author_name := Some (dm_author message),
                        em_author_icon_url := Some (dm_avatar_url message)\<rparr>) of
                Inl err \<Rightarrow> Inl err
              | Inr (e1, ref_jump) \<Rightarrow>
                  let e2 = add_field ZERO_WIDTH_SPACE
                             (ref_jump @ ascii ''**[Jump to Message]('' @ jump_url message @
                                ascii '')**'') False e1;
                      (e3, image_used, extra_attachments) =
                        foldl (image_step nsfw) (e2, False, []) urls;
                      to_show = join nl (map link_text (filter ue_show_link urls));
                      e4 = (if length to_show \<noteq> 0
                            then add_field ZERO_WIDTH_SPACE to_show True e3 else e3)
                  in Inr (e4\<lparr>em_timestamp := Some (dm_created_at message)\<rparr>,
                          extra_attachments)))"


subsection \<open>Statements and notifications as steps on the state\<close>

definition set_points :: "int \<Rightarrow> int \<Rightarrow> state \<Rightarrow> state" where
  "set_points points message_id st =
     (emit (Db_set_points points message_id) st)
       \<lparr>st_db := execute_set_points points message_id (st_db st)\<rparr>"

definition delete_starboard_message :: "int \<Rightarrow> state \<Rightarrow> state" where
  "delete_starboard_message message_id st =
     (emit (Db_delete message_id) st)\<lparr>st_db := execute_delete message_id (st_db st)\<rparr>"

definition insert_starboard_message :: "int \<Rightarrow> int \<Rightarrow> int \<Rightarrow> state \<Rightarrow> state" where
  "insert_starboard_message mirror_id orig_id starboard_id st =
     (emit (Db_create mirror_id orig_id starboard_id) st)
       \<lparr>st_db := create_starboard_message mirror_id orig_id starboard_id (st_db st)\<rparr>"

text \<open>\<open>bot.dispatch("guild_log", text, "error", guild)\<close>.\<close>

definition guild_log :: "pystr \<Rightarrow> int \<Rightarrow> state \<Rightarrow> state" where
  "guild_log text guild_id st = emit (Guild_log text (ascii ''error'') guild_id) st"

subsection \<open>\<open>try_regex\<close>\<close>

definition regex_timeout_text :: "pystr \<Rightarrow> pystr \<Rightarrow> pystr" where
  "regex_timeout_text pattern jump =
     ascii ''I tried to match `'' @ pattern @ ascii ''` to [a message]('' @ jump @
     ascii ''), but it took too long. Try improving the efficiency of your regex. If you need help, feel free to join the support server.''"

definition try_regex ::
  "environment \<Rightarrow> pystr \<Rightarrow> discord_message \<Rightarrow> state \<Rightarrow> bool option \<times> state" where
  "try_regex env pattern message st =
     (let string = dm_system_content message;
          jump = jump_url message
      in case safe_regex env string pattern of
           Inr matched \<Rightarrow> (if matched then (Some True, st) else (Some False, st))
         | Inl TimeoutError \<Rightarrow>
             (None, guild_log (regex_timeout_text pattern jump) (dm_guild_id message) st))"

subsection \<open>\<open>handle_starboard\<close>\<close>

text \<open>The points of the pass (lines 363 to 366): recomputed, or read from the link.\<close>

definition handle_starboard_points ::
  "database \<Rightarrow> sql_starboard \<Rightarrow> sql_message \<Rightarrow> sql_starboard_message option \<Rightarrow> exn + int" where
  "handle_starboard_points db sql_starboard sql_message sql_starboard_message =
     (if \<not> msg_frozen sql_message \<or> sql_starboard_message = None then
        calculate_points db sql_message sql_starboard
      else
        (case sql_starboard_message of
           Some link \<Rightarrow> Inr (sbm_points link)
         | None \<Rightarrow> calculate_points db sql_message sql_starboard))"

text \<open>The flags that the rules set (lines 376 to 381).\<close>

record decision =
  d_add :: bool
  d_edit :: bool
  d_delete :: bool
  d_forced :: bool
  d_frozen :: bool

text \<open>
  The two regex rules (lines 400 to 408) on a live message; \<open>try_regex\<close> may
  dispatch a notification.
\<close>

definition regex_rule ::
  "environment \<Rightarrow> sql_starboard \<Rightarrow> discord_message \<Rightarrow> decision \<Rightarrow> state \<Rightarrow>
   decision \<times> state" where
  "regex_rule env sql_starboard message d st =
     (if sb_regex sql_starboard \<noteq> [] then
        (case try_regex env (sb_regex sql_starboard) message st of
           (r, st') \<Rightarrow>
             (if r = Some False then d\<lparr>d_add := False, d_delete := True\<rparr> else d, st'))
      else (d, st))"

definition exclude_regex_rule ::
  "environment \<Rightarrow> sql_starboard \<Rightarrow> discord_message \<Rightarrow> decision \<Rightarrow> state \<Rightarrow>
   decision \<times> state" where
  "exclude_regex_rule env sql_starboard message d st =
     (if sb_exclude_regex sql_starboard \<noteq> [] then
        (case try_regex env (sb_exclude_regex sql_starboard) message st of
           (r, st') \<Rightarrow>
             (if r = Some True then d\<lparr>d_add := False, d_delete := True\<rparr> else d, st'))
      else (d, st))"

definition regex_rules ::
  "environment \<Rightarrow> sql_starboard \<Rightarrow> discord_message option \<Rightarrow> decision \<Rightarrow> state \<Rightarrow>
   decision \<times> state" where
  "regex_rules env sql_starboard message d st =
     (case message of
        None \<Rightarrow> (d, st)
      | Some m \<Rightarrow>
          (case regex_rule env sql_starboard m d st of
             (d1, st1) \<Rightarrow> exclude_regex_rule env sql_starboard m d1 st1))"

text \<open>
  The rules in their order (lines 376 to 418). Reading \<open>is_bot\<close> from an author row that
  is \<open>None\<close> raises \<open>TypeError\<close>; the row is read only when bots are not allowed.
\<close>

definition handle_starboard_decision ::
  "environment \<Rightarrow> sql_starboard \<Rightarrow> sql_message \<Rightarrow> sql_user option \<Rightarrow> int \<Rightarrow>
   discord_message option \<Rightarrow> state \<Rightarrow> (exn + decision) \<times> state" where
  "handle_starboard_decision env sql_starboard sql_message sql_author points message st =
     (let d0 = \<lparr>d_add = False, d_edit = sb_link_edits sql_starboard, d_delete = False,
                d_forced = False, d_frozen = False\<rparr>;
          d1 = (if points \<ge> sb_required sql_starboard then d0\<lparr>d_add := True\<rparr>
                else if points \<le> sb_required_remove sql_starboard then d0\<lparr>d_delete := True\<rparr>
                else d0)
      in
        if \<not> sb_allow_bots sql_starboard \<and> sql_author = None then (Inl TypeError, st)
        else
          let d2 = (if \<not> sb_allow_bots sql_starboard \<and>
                       (case sql_author of Some a \<Rightarrow> usr_is_bot a | None \<Rightarrow> False)
                    then d1\<lparr>d_delete := True, d_add := False\<rparr> else d1);
              d3 = (if sb_link_deletes sql_starboard \<and> message = None
                    then d2\<lparr>d_delete := True, d_add := False\<rparr> else d2);
              d4 = (if msg_is_nsfw sql_message \<and> \<not> sb_allow_nsfw sql_starboard
                    then d3\<lparr>d_add := False, d_delete := True\<rparr> else d3);
              (d5, st1) = regex_rules env sql_starboard message d4 st;
              d6 = (if msg_frozen sql_message
                    then d5\<lparr>d_add := False, d_delete := False, d_frozen := True\<rparr> else d5);
              d7 = (if sb_id sql_starboard \<in> set (msg_forced sql_message)
                    then d6\<lparr>d_add := True, d_delete := False, d_forced := True\<rparr> else d6)
          in (Inr d7, st1))"

text \<open>
  The link and the live mirror (lines 420 to 435): a link whose mirror the cache does
  not resolve is deleted from the store.
\<close>

definition resolve_mirror ::
  "sql_message \<Rightarrow> sql_starboard_message option \<Rightarrow> state \<Rightarrow> discord_message option \<times> state" where
  "resolve_mirror sql_message sql_starboard_message st =
     (case sql_starboard_message of
        None \<Rightarrow> (None, st)
      | Some link \<Rightarrow>
          (case fetch_message (st_world st) (msg_guild_id sql_message)
                  (sbm_starboard_id link) (sbm_id link) of
             None \<Rightarrow> (None, delete_starboard_message (sbm_id link) st)
           | Some starboard_message \<Rightarrow> (Some starboard_message, st)))"

definition plain_text ::
  "environment \<Rightarrow> sql_starboard \<Rightarrow> sql_message \<Rightarrow> int \<Rightarrow> decision \<Rightarrow> pystr" where
  "plain_text env sql_starboard sql_message points d =
     ascii ''**'' @
     pretty_emoji_string env (sb_display_emoji sql_starboard) (msg_guild_id sql_message) @
     ascii '' '' @ str_int points @ ascii '' | <#'' @ str_int (msg_channel_id sql_message) @
     ascii ''>**'' @ (if d_forced d then [32, 128274] else []) @
     (if d_frozen d then [32, 10052, 65039] else [])"

definition send_forbidden_text :: "int \<Rightarrow> pystr" where
  "send_forbidden_text channel_id =
     ascii ''I tried to send a starboard message to '' @ mention channel_id @
     ascii '', but I'm missing the proper permissions. Please make sure I have the `Send Messages` permission.''"

definition autoreact_forbidden_text :: "int \<Rightarrow> pystr" where
  "autoreact_forbidden_text channel_id =
     ascii ''I tried to autoreact to a message on the starboard, but I'm missing the proper permissions. If you don't want me to autoreact to messages, set the AutoReact setting to False with `sb!s cs '' @
     mention channel_id @ ascii '' --autoReact False`''"

text \<open>
  The loop over \<open>star_emojis\<close> (lines 489 to 511): a token that \<open>int\<close> reads as a
  non-zero id is looked up among the emojis of the guild, and is \<open>None\<close> when it is not
  there.
\<close>

fun autoreact ::
  "environment \<Rightarrow> int \<Rightarrow> int \<Rightarrow> discord_message \<Rightarrow> pystr list \<Rightarrow> state \<Rightarrow> outcome \<times> state" where
  "autoreact env starboard_id guild_id m [] st = (Returned, st)"
| "autoreact env starboard_id guild_id m (emoji # rest) st =
     (let arg =
            (case py_int env emoji 10 of
               None \<Rightarrow> Some (UnicodeEmoji emoji)
             | Some emoji_id \<Rightarrow>
                 if emoji_id \<noteq> 0 then
                   (if emoji_id \<in> set (w_guild_emojis (st_world st) guild_id)
                    then Some (CustomEmoji emoji_id) else None)
                 else Some (UnicodeEmoji emoji));
          st1 = emit (Remote_react (dm_id m) arg) st
      in case add_reaction (st_world st1) m arg of
           Inr w \<Rightarrow> autoreact env starboard_id guild_id m rest (st1\<lparr>st_world := w\<rparr>)
         | Inl Forbidden \<Rightarrow>
             autoreact env starboard_id guild_id m rest
               (guild_log (autoreact_forbidden_text starboard_id) guild_id st1)
         | Inl err \<Rightarrow> (Raised err, st1))"

text \<open>The creation of the mirror (lines 465 to 511).\<close>

definition send_mirror ::
  "environment \<Rightarrow> sql_starboard \<Rightarrow> sql_message \<Rightarrow> int \<Rightarrow> discord_message \<Rightarrow> pystr \<Rightarrow>
   embed option \<Rightarrow> discord_file list \<Rightarrow> state \<Rightarrow> outcome \<times> state" where
  "send_mirror env sql_starboard sql_message points message text emb attachments st =
     (let guild_id = msg_guild_id sql_message;
          st1 = emit (Remote_send (sb_id sql_starboard) text emb attachments) st
      in case channel_send (st_world st1) guild_id (sb_id sql_starboard) text emb attachments of
           Inl Forbidden \<Rightarrow>
             (Returned, guild_log (send_forbidden_text (sb_id sql_starboard)) guild_id st1)
         | Inl err \<Rightarrow> (Raised err, st1)
         | Inr (m, w) \<Rightarrow>
             let st2 = insert_starboard_message (dm_id m) (dm_id message) (sb_id sql_starboard)
                         (st1\<lparr>st_world := w\<rparr>);
                 st3 = set_points points (dm_id m) st2
             in if sb_autoreact sql_starboard
                then autoreact env (sb_id sql_starboard) guild_id m
                       (sb_star_emojis sql_starboard) st3
                else (Returned, st3))"

text \<open>An edit of the mirror inside \<open>try\<close> ... \<open>except NotFound: pass\<close>.\<close>

definition edit_mirror ::
  "discord_message \<Rightarrow> pystr \<Rightarrow> embed option \<Rightarrow> state \<Rightarrow> outcome \<times> state" where
  "edit_mirror starboard_message text emb st =
     (let st1 = emit (Remote_edit (dm_id starboard_message) text emb) st
      in case message_edit (st_world st1) starboard_message text emb of
           Inr w \<Rightarrow> (Returned, st1\<lparr>st_world := w\<rparr>)
         | Inl NotFound \<Rightarrow> (Returned, st1)
         | Inl err \<Rightarrow> (Raised err, st1))"

text \<open>The transition (lines 437 to 526).\<close>

definition handle_starboard_action ::
  "environment \<Rightarrow> sql_starboard \<Rightarrow> sql_message \<Rightarrow> int \<Rightarrow> discord_message option \<Rightarrow>
   decision \<Rightarrow> discord_message option \<Rightarrow> state \<Rightarrow> outcome \<times> state" where
  "handle_starboard_action env sql_starboard sql_message points message d starboard_message st =
     (if d_delete d \<and> starboard_message \<noteq> None then
        (case starboard_message of
           None \<Rightarrow> (Returned, st)
         | Some sm \<Rightarrow>
             let st1 = delete_starboard_message (dm_id sm) st;
                 st2 = emit (Remote_delete (dm_id sm)) st1
             in (case message_delete (st_world st2) sm of
                   Inr w \<Rightarrow> (Returned, st2\<lparr>st_world := w\<rparr>)
                 | Inl NotFound \<Rightarrow> (Returned, st2)
                 | Inl err \<Rightarrow> (Raised err, st2)))
      else if \<not> d_delete d then
        (case (case message of
                 None \<Rightarrow> Inr (None, [])
               | Some m \<Rightarrow>
                   (case embed_message env (st_world st) m (sb_color sql_starboard) of
                      Inl err \<Rightarrow> Inl err
                    | Inr (e, files) \<Rightarrow> Inr (Some e, files))) of
           Inl err \<Rightarrow> (Raised err, st)
         | Inr (emb, attachments) \<Rightarrow>
             let text = plain_text env sql_starboard sql_message points d
             in (case starboard_message of
                   None \<Rightarrow>
                     (case message of
                        None \<Rightarrow> (Returned, st)
                      | Some m \<Rightarrow>
                          if d_add d
                          then send_mirror env sql_starboard sql_message points m text emb
                                 attachments st
                          else (Returned, st))
                 | Some sm \<Rightarrow>
                     (case message of
                        Some m \<Rightarrow>
                          if d_edit d then edit_mirror sm text emb st
                          else edit_mirror sm text None st
                      | None \<Rightarrow> edit_mirror sm text None st)))
      else (Returned, st))"

text \<open>The pass from line 367 on, with the link and the points of the pass.\<close>

definition handle_starboard_rest ::
  "environment \<Rightarrow> sql_starboard \<Rightarrow> sql_message \<Rightarrow> sql_user option \<Rightarrow>
   sql_starboard_message option \<Rightarrow> int \<Rightarrow> state \<Rightarrow> outcome \<times> state" where
  "handle_starboard_rest env sql_starboard sql_message sql_author sql_starboard_message points st =
     (let st1 = (case sql_starboard_message of
                   None \<Rightarrow> st
                 | Some link \<Rightarrow> set_points points (sbm_id link) st);
          message = fetch_message (st_world st1) (msg_guild_id sql_message)
                      (msg_channel_id sql_message) (msg_id sql_message)
      in (case handle_starboard_decision env sql_starboard sql_message sql_author
                 points message st1 of
            (Inl err, st2) \<Rightarrow> (Raised err, st2)
          | (Inr d, st2) \<Rightarrow>
              (case resolve_mirror sql_message sql_starboard_message st2 of
                 (starboard_message, st3) \<Rightarrow>
                   handle_starboard_action env sql_starboard sql_message points
                     message d starboard_message st3)))"

definition handle_starboard ::
  "environment \<Rightarrow> sql_starboard \<Rightarrow> sql_message \<Rightarrow> sql_user option \<Rightarrow> state \<Rightarrow>
   outcome \<times> state" where
  "handle_starboard env sql_starboard sql_message sql_author st =
     (let sql_starboard_message =
            fetchrow_starboard_message (st_db st) (msg_id sql_message) (sb_id sql_starboard)
      in case handle_starboard_points (st_db st) sql_starboard sql_message
                sql_starboard_message of
           Inl err \<Rightarrow> (Raised err, st)
         | Inr points \<Rightarrow>
             handle_starboard_rest env sql_starboard sql_message sql_author
               sql_starboard_message points st)"

subsection \<open>\<open>handle_trashed_message\<close> and \<open>update_message\<close>\<close>





section \<open>The properties: what they speak of\<close>

subsection \<open>The users whose reaction counts\<close>

text \<open>
  The users with at least one reaction of the message whose emoji is a star emoji of
  the starboard, without the author of the message unless \<open>self_star\<close> is set.
\<close>

definition qualifying_users :: "database \<Rightarrow> sql_message \<Rightarrow> sql_starboard \<Rightarrow> int set" where
  "qualifying_users db message starboard =
     set (map ru_user_id
       (filter (\<lambda>ru.
            list_ex (\<lambda>r. rct_message_id r = msg_id message \<and> rct_id r = ru_reaction_id ru \<and>
                          rct_emoji r \<in> set (sb_star_emojis starboard)) (db_reactions db) \<and>
            (sb_self_star starboard \<or> Some (ru_user_id ru) \<noteq> msg_author_id message))
          (db_reaction_users db)))"

text \<open>Whether a row of \<open>reaction_users\<close> passes the two tests of the loop.\<close>

definition counts_row :: "(int \<rightharpoonup> pystr) \<Rightarrow> sql_starboard \<Rightarrow> sql_message \<Rightarrow> sql_reaction_user \<Rightarrow> bool" where
  "counts_row reactions starboard message ru =
     ((case reactions (ru_reaction_id ru) of None \<Rightarrow> False
       | Some e \<Rightarrow> e \<in> set (sb_star_emojis starboard)) \<and>
      (sb_self_star starboard \<or> Some (ru_user_id ru) \<noteq> msg_author_id message))"

subsection \<open>Concrete inputs\<close>

text \<open>
  An environment whose helpers do nothing: \<open>escmd\<close> and \<open>pretty_emoji_string\<close> return
  their argument, every pattern matches, and no emoji token is a number.
\<close>

definition plain_env :: environment where
  "plain_env =
     \<lparr>escmd = (\<lambda>s. s), safe_regex = (\<lambda>s p. Inr True), pretty_emoji_string = (\<lambda>e g. e),
      py_int = (\<lambda>s b. None), theme_color = 0\<rparr>"

text \<open>The star emoji, U+2B50.\<close>

definition star :: pystr where
  "star = [11088]"

text \<open>
  Scenario A of the specification: a starboard with \<open>required = 3\<close>, the star as its
  only emoji and no self star; a message of user 100 with a star from the users 100,
  101, 102 and 103.
\<close>

definition scenario_starboard :: sql_starboard where
  "scenario_starboard =
     \<lparr>sb_id = 500, sb_guild_id = 1, sb_required = 3, sb_required_remove = 0,
      sb_self_star = False, sb_allow_bots = True, sb_allow_nsfw = False,
      sb_link_edits = True, sb_link_deletes = False, sb_star_emojis = [star],
      sb_display_emoji = star, sb_color = None, sb_regex = [], sb_exclude_regex = [],
      sb_autoreact = False\<rparr>"

definition scenario_message :: sql_message where
  "scenario_message =
     \<lparr>msg_id = 10, msg_guild_id = 1, msg_channel_id = 20, msg_author_id = Some 100,
      msg_is_nsfw = False, msg_forced = [], msg_trashed = False, msg_frozen = False\<rparr>"

definition scenario_author :: sql_user where
  "scenario_author = \<lparr>usr_id = 100, usr_is_bot = False\<rparr>"

definition scenario_db :: database where
  "scenario_db =
     \<lparr>db_starboards = [scenario_starboard], db_messages = [scenario_message],
      db_users = [scenario_author], db_starboard_messages = [],
      db_reactions = [\<lparr>rct_id = 1, rct_emoji = star, rct_message_id = 10\<rparr>],
      db_reaction_users =
        [\<lparr>ru_reaction_id = 1, ru_user_id = 100\<rparr>, \<lparr>ru_reaction_id = 1, ru_user_id = 101\<rparr>,
         \<lparr>ru_reaction_id = 1, ru_user_id = 102\<rparr>, \<lparr>ru_reaction_id = 1, ru_user_id = 103\<rparr>]\<rparr>"

text \<open>
  The live source message of the scenario, and a platform that holds only it, with the
  message in the cache and every permission.
\<close>

definition scenario_live :: discord_message where
  "scenario_live =
     \<lparr>dm_id = 10, dm_guild_id = 1, dm_channel_id = 20, dm_channel_nsfw = False,
      dm_author = ascii ''user#0100'', dm_avatar_url = ascii ''https://cdn.example/a.png'',
      dm_system_content = ascii ''hello'', dm_attachments = [], dm_embeds = [],
      dm_reference = None, dm_created_at = 10, dm_reactions = []\<rparr>"

definition scenario_world :: world where
  "scenario_world =
     \<lparr>w_messages = [scenario_live], w_cache = [scenario_live], w_can_send = (\<lambda>c. True),
      w_can_edit = (\<lambda>c. True), w_can_delete = (\<lambda>c. True), w_can_react = (\<lambda>c. True),
      w_guild_emojis = (\<lambda>g. []), w_next_id = 1000, w_bot_name = ascii ''Starboard#0001'',
      w_bot_avatar_url = ascii ''https://cdn.example/bot.png''\<rparr>"

definition scenario_state :: state where
  "scenario_state = \<lparr>st_db = scenario_db, st_world = scenario_world, st_trace = []\<rparr>"

text \<open>A message whose text has 2050 characters.\<close>

definition long_message :: discord_message where
  "long_message = scenario_live\<lparr>dm_system_content := replicate 2050 97\<rparr>"

subsection \<open>The rules after the baseline\<close>

text \<open>
  Whether one of the rules that follow the baseline fires: bots, \<open>link_deletes\<close>, NSFW,
  \<open>regex\<close> (the pattern does not match), \<open>exclude_regex\<close> (the pattern matches), frozen
  or forced.
\<close>

definition later_rule_fires ::
  "environment \<Rightarrow> sql_starboard \<Rightarrow> sql_message \<Rightarrow> sql_user \<Rightarrow> discord_message option \<Rightarrow> bool" where
  "later_rule_fires env sb msg author message =
     ((\<not> sb_allow_bots sb \<and> usr_is_bot author) \<or>
      (sb_link_deletes sb \<and> message = None) \<or>
      (msg_is_nsfw msg \<and> \<not> sb_allow_nsfw sb) \<or>
      (case message of
         None \<Rightarrow> False
       | Some m \<Rightarrow>
           (sb_regex sb \<noteq> [] \<and>
              safe_regex env (dm_system_content m) (sb_regex sb) = Inr False) \<or>
           (sb_exclude_regex sb \<noteq> [] \<and>
              safe_regex env (dm_system_content m) (sb_exclude_regex sb) = Inr True)) \<or>
      msg_frozen msg \<or> sb_id sb \<in> set (msg_forced msg))"

text \<open>A starboard with degenerate thresholds: \<open>required = 3\<close>, \<open>required_remove = 5\<close>.\<close>

definition tie_starboard :: sql_starboard where
  "tie_starboard = scenario_starboard\<lparr>sb_required_remove := 5\<rparr>"

text \<open>An environment in which the regex guard always times out.\<close>

definition timeout_env :: environment where
  "timeout_env = plain_env\<lparr>safe_regex := (\<lambda>s p. Inl TimeoutError)\<rparr>"

text \<open>A starboard with the pattern \<open>a+\<close> as \<open>regex\<close>, and one with it as \<open>exclude_regex\<close>.\<close>

definition regex_starboard :: sql_starboard where
  "regex_starboard = scenario_starboard\<lparr>sb_regex := ascii ''a+''\<rparr>"

definition exclude_starboard :: sql_starboard where
  "exclude_starboard = scenario_starboard\<lparr>sb_exclude_regex := ascii ''a+''\<rparr>"

text \<open>
  A frozen message of a bot that is forced onto the scenario's starboard, which does
  not allow bots.
\<close>

definition forced_message :: sql_message where
  "forced_message = scenario_message\<lparr>msg_forced := [500], msg_frozen := True\<rparr>"

definition bot_author :: sql_user where
  "bot_author = \<lparr>usr_id = 100, usr_is_bot = True\<rparr>"

definition no_bots_starboard :: sql_starboard where
  "no_bots_starboard = scenario_starboard\<lparr>sb_allow_bots := False\<rparr>"

text \<open>A link of the scenario's message on the scenario's starboard, with 7 points.\<close>

definition scenario_link :: sql_starboard_message where
  "scenario_link = \<lparr>sbm_id = 900, sbm_orig_id = 10, sbm_starboard_id = 500, sbm_points = 7\<rparr>"

text \<open>
  The scenario with the message frozen and already on the starboard: the link is in
  the store and the mirror, message 900 of channel 500, is on the platform and in the
  cache.
\<close>

definition frozen_message :: sql_message where
  "frozen_message = scenario_message\<lparr>msg_frozen := True\<rparr>"

definition scenario_mirror :: discord_message where
  "scenario_mirror =
     \<lparr>dm_id = 900, dm_guild_id = 1, dm_channel_id = 500, dm_channel_nsfw = False,
      dm_author = ascii ''Starboard#0001'', dm_avatar_url = ascii ''https://cdn.example/bot.png'',
      dm_system_content = ascii ''old text'', dm_attachments = [], dm_embeds = [],
      dm_reference = None, dm_created_at = 900, dm_reactions = []\<rparr>"

definition linked_state :: state where
  "linked_state =
     \<lparr>st_db = scenario_db\<lparr>db_starboard_messages := [scenario_link]\<rparr>,
      st_world = scenario_world\<lparr>w_messages := [scenario_live, scenario_mirror],
                   w_cache := [scenario_live, scenario_mirror]\<rparr>,
      st_trace = []\<rparr>"



subsection \<open>Kinds of events\<close>

fun is_guild_log :: "event \<Rightarrow> bool" where
  "is_guild_log (Guild_log text severity guild_id) = True"
| "is_guild_log ev = False"

fun is_db_create :: "event \<Rightarrow> bool" where
  "is_db_create (Db_create mirror_id orig_id starboard_id) = True"
| "is_db_create ev = False"


text \<open>The scenario on a platform where the bot may not send to the starboard.\<close>

definition forbidden_state :: state where
  "forbidden_state = scenario_state\<lparr>st_world := scenario_world\<lparr>w_can_send := (\<lambda>c. False)\<rparr>\<rparr>"

subsection \<open>The rules before and after the regex rules\<close>

text \<open>
  The flags after the baseline and the rules of bots, \<open>link_deletes\<close> and NSFW, and the
  effect of the rules of frozen and forced on the flags that the regex rules return.
\<close>

definition rules_before_regex ::
  "sql_starboard \<Rightarrow> sql_message \<Rightarrow> sql_user option \<Rightarrow> int \<Rightarrow> discord_message option \<Rightarrow> decision" where
  "rules_before_regex sb msg author points message =
     (let d0 = \<lparr>d_add = False, d_edit = sb_link_edits sb, d_delete = False,
                d_forced = False, d_frozen = False\<rparr>;
          d1 = (if points \<ge> sb_required sb then d0\<lparr>d_add := True\<rparr>
                else if points \<le> sb_required_remove sb then d0\<lparr>d_delete := True\<rparr>
                else d0);
          d2 = (if \<not> sb_allow_bots sb \<and>
                       (case author of Some a \<Rightarrow> usr_is_bot a | None \<Rightarrow> False)
                    then d1\<lparr>d_delete := True, d_add := False\<rparr> else d1);
          d3 = (if sb_link_deletes sb \<and> message = None
                    then d2\<lparr>d_delete := True, d_add := False\<rparr> else d2)
      in (if msg_is_nsfw msg \<and> \<not> sb_allow_nsfw sb
          then d3\<lparr>d_add := False, d_delete := True\<rparr> else d3))"

definition rules_after_regex :: "sql_starboard \<Rightarrow> sql_message \<Rightarrow> decision \<Rightarrow> decision" where
  "rules_after_regex sb msg d5 =
     (let d6 = (if msg_frozen msg
                then d5\<lparr>d_add := False, d_delete := False, d_frozen := True\<rparr> else d5)
      in (if sb_id sb \<in> set (msg_forced msg)
          then d6\<lparr>d_add := True, d_delete := False, d_forced := True\<rparr> else d6))"

subsection \<open>A pass that adds no link\<close>

text \<open>
  From \<open>st\<close> to \<open>st'\<close> no link was created: the trace grew by events none of which
  creates a link, every link of \<open>st'\<close> has the id of a link of \<open>st\<close>, and the permission
  to send is as it was.
\<close>

definition no_link_added :: "state \<Rightarrow> state \<Rightarrow> bool" where
  "no_link_added st st' =
     ((\<exists>evs. st_trace st' = st_trace st @ evs \<and> (\<forall>ev \<in> set evs. \<not> is_db_create ev)) \<and>
      set (map sbm_id (db_starboard_messages (st_db st'))) \<subseteq>
        set (map sbm_id (db_starboard_messages (st_db st))) \<and>
      w_can_send (st_world st') = w_can_send (st_world st))"

subsection \<open>A pass that only puts a notice\<close>

text \<open>The events that a run added to the trace.\<close>

definition new_events :: "state \<Rightarrow> state \<Rightarrow> event list" where
  "new_events st st' = drop (length (st_trace st)) (st_trace st')"


subsection \<open>A run that adds only events of a kind\<close>

definition adds_only :: "(event \<Rightarrow> bool) \<Rightarrow> state \<Rightarrow> state \<Rightarrow> bool" where
  "adds_only P st st' =
     (st_trace st' = st_trace st @ new_events st st' \<and>
      (\<forall>ev \<in> set (new_events st st'). P ev))"



subsection \<open>The links of a pair, and two passes in a row\<close>

text \<open>The links of a message on a starboard, and the invariant that there is at most one.\<close>

definition links_of :: "database \<Rightarrow> sql_message \<Rightarrow> sql_starboard \<Rightarrow> sql_starboard_message list" where
  "links_of db msg sb =
     filter (\<lambda>r. sbm_orig_id r = msg_id msg \<and> sbm_starboard_id r = sb_id sb)
       (db_starboard_messages db)"

definition at_most_one_link :: "database \<Rightarrow> sql_message \<Rightarrow> sql_starboard \<Rightarrow> bool" where
  "at_most_one_link db msg sb = (length (links_of db msg sb) \<le> 1)"

text \<open>The scenario after one pass of \<open>handle_starboard\<close>, and after a second one.\<close>

definition scenario_once :: state where
  "scenario_once =
     snd (handle_starboard plain_env scenario_starboard scenario_message (Some scenario_author)
            scenario_state)"

definition scenario_twice :: state where
  "scenario_twice =
     snd (handle_starboard plain_env scenario_starboard scenario_message (Some scenario_author)
            scenario_once)"

text \<open>The scenario with two links of the pair in the store, both mirrors live and cached.\<close>

definition second_link :: sql_starboard_message where
  "second_link = \<lparr>sbm_id = 901, sbm_orig_id = 10, sbm_starboard_id = 500, sbm_points = 7\<rparr>"

definition double_state :: state where
  "double_state =
     \<lparr>st_db = scenario_db\<lparr>db_starboard_messages := [scenario_link, second_link]\<rparr>,
      st_world = scenario_world\<lparr>
        w_messages := [scenario_live, scenario_mirror, scenario_mirror\<lparr>dm_id := 901\<rparr>],
        w_cache := [scenario_live, scenario_mirror, scenario_mirror\<lparr>dm_id := 901\<rparr>]\<rparr>,
      st_trace = []\<rparr>"

subsection \<open>A pass without its trace\<close>

text \<open>
  What a pass of \<open>handle_starboard\<close> computes from the store and the platform alone: the
  points, the answer of the regex guard, the decision, the rendered content, whether
  the pass sends a new mirror, and the store and the platform after a pass that sends
  none.
\<close>

definition points_of ::
  "database \<Rightarrow> sql_starboard \<Rightarrow> sql_message \<Rightarrow> sql_starboard_message option \<Rightarrow> int" where
  "points_of db sb msg link =
     (case handle_starboard_points db sb msg link of Inr p \<Rightarrow> p | Inl err \<Rightarrow> 0)"

definition regex_verdict :: "environment \<Rightarrow> pystr \<Rightarrow> discord_message \<Rightarrow> bool option" where
  "regex_verdict env pattern m =
     (case safe_regex env (dm_system_content m) pattern of
        Inr b \<Rightarrow> Some b
      | Inl err \<Rightarrow> None)"

definition pure_regex_rules ::
  "environment \<Rightarrow> sql_starboard \<Rightarrow> discord_message option \<Rightarrow> decision \<Rightarrow> decision" where
  "pure_regex_rules env sb message d =
     (case message of
        None \<Rightarrow> d
      | Some m \<Rightarrow>
          let d1 = (if sb_regex sb \<noteq> [] \<and> regex_verdict env (sb_regex sb) m = Some False
                    then d\<lparr>d_add := False, d_delete := True\<rparr> else d)
          in (if sb_exclude_regex sb \<noteq> [] \<and>
                 regex_verdict env (sb_exclude_regex sb) m = Some True
              then d1\<lparr>d_add := False, d_delete := True\<rparr> else d1))"

definition decision_of ::
  "environment \<Rightarrow> sql_starboard \<Rightarrow> sql_message \<Rightarrow> sql_user option \<Rightarrow> int \<Rightarrow>
   discord_message option \<Rightarrow> exn + decision" where
  "decision_of env sb msg author points message =
     (if \<not> sb_allow_bots sb \<and> author = None then Inl TypeError
      else Inr (rules_after_regex sb msg
             (pure_regex_rules env sb message
                (rules_before_regex sb msg author points message))))"

definition rendered ::
  "environment \<Rightarrow> sql_starboard \<Rightarrow> discord_message option \<Rightarrow> world \<Rightarrow>
   exn + (embed option \<times> discord_file list)" where
  "rendered env sb message w =
     (case message of
        None \<Rightarrow> Inr (None, [])
      | Some m \<Rightarrow>
          (case embed_message env w m (sb_color sb) of
             Inl err \<Rightarrow> Inl err
           | Inr (e, files) \<Rightarrow> Inr (Some e, files)))"

definition send_happens ::
  "environment \<Rightarrow> sql_starboard \<Rightarrow> decision \<Rightarrow> discord_message option \<Rightarrow> world \<Rightarrow> bool" where
  "send_happens env sb d message w =
     (\<not> d_delete d \<and> d_add d \<and> message \<noteq> None \<and>
      (case rendered env sb message w of Inl err \<Rightarrow> False | Inr r \<Rightarrow> True) \<and>
      w_can_send w (sb_id sb))"

definition pass_sends ::
  "environment \<Rightarrow> sql_starboard \<Rightarrow> sql_message \<Rightarrow> sql_user option \<Rightarrow> database \<Rightarrow> world \<Rightarrow> bool" where
  "pass_sends env sb msg author db w =
     (let link = fetchrow_starboard_message db (msg_id msg) (sb_id sb);
          message = fetch_message w (msg_guild_id msg) (msg_channel_id msg) (msg_id msg)
      in case decision_of env sb msg author (points_of db sb msg link) message of
           Inl err \<Rightarrow> False
         | Inr d \<Rightarrow>
             (case link of
                None \<Rightarrow> True
              | Some l \<Rightarrow>
                  fetch_message w (msg_guild_id msg) (sbm_starboard_id l) (sbm_id l) = None) \<and>
             send_happens env sb d message w)"

definition pass_effect ::
  "environment \<Rightarrow> sql_starboard \<Rightarrow> sql_message \<Rightarrow> sql_user option \<Rightarrow> database \<Rightarrow> world \<Rightarrow>
   database \<times> world" where
  "pass_effect env sb msg author db w =
     (let link = fetchrow_starboard_message db (msg_id msg) (sb_id sb);
          p = points_of db sb msg link;
          db1 = (case link of None \<Rightarrow> db | Some l \<Rightarrow> execute_set_points p (sbm_id l) db);
          message = fetch_message w (msg_guild_id msg) (msg_channel_id msg) (msg_id msg)
      in case decision_of env sb msg author p message of
           Inl err \<Rightarrow> (db1, w)
         | Inr d \<Rightarrow>
             (case link of
                None \<Rightarrow> (db1, w)
              | Some l \<Rightarrow>
                  (case fetch_message w (msg_guild_id msg) (sbm_starboard_id l) (sbm_id l) of
                     None \<Rightarrow> (execute_delete (sbm_id l) db1, w)
                   | Some sm \<Rightarrow>
                       if d_delete d then
                         (execute_delete (dm_id sm) db1,
                          (case message_delete w sm of Inr w' \<Rightarrow> w' | Inl err \<Rightarrow> w))
                       else
                         (case rendered env sb message w of
                            Inl err \<Rightarrow> (db1, w)
                          | Inr (emb, files) \<Rightarrow>
                              (db1,
                               (case message_edit w sm (plain_text env sb msg p d)
                                       (if message \<noteq> None \<and> d_edit d then emb else None) of
                                  Inr w' \<Rightarrow> w'
                                | Inl err \<Rightarrow> w))))))"

section \<open>The properties\<close>

subsection \<open>The point calculator\<close>

lemma count_loop_card:
  assumes "\<forall>ru \<in> set rus. ru_reaction_id ru \<in> dom reactions" "finite used"
  shows "count_loop reactions starboard message rus used points =
         Inr (points + int (card (ru_user_id ` {ru \<in> set rus. counts_row reactions starboard message ru} - used)))"
  using assms
proof (induction rus arbitrary: used points)
  case Nil
  then show ?case by simp
next
  case (Cons r rs)
  let ?S = "\<lambda>xs. ru_user_id ` {ru \<in> set xs. counts_row reactions starboard message ru}"
  from Cons.prems obtain e where e: "reactions (ru_reaction_id r) = Some e" by auto
  have rs: "\<forall>ru \<in> set rs. ru_reaction_id ru \<in> dom reactions" using Cons.prems by simp
  show ?case
  proof (cases "ru_user_id r \<in> used")
    case True
    then have "?S (r # rs) - used = ?S rs - used" by auto
    with True Cons.IH[OF rs Cons.prems(2)] show ?thesis by simp
  next
    case False
    show ?thesis
    proof (cases "counts_row reactions starboard message r")
      case c: False
      then have "?S (r # rs) = ?S rs" by auto
      with False c e Cons.IH[OF rs Cons.prems(2), of points] show ?thesis
        by (auto simp: counts_row_def)
    next
      case c: True
      have fin: "finite (?S rs - insert (ru_user_id r) used)" by simp
      have "?S (r # rs) - used = insert (ru_user_id r) (?S rs - insert (ru_user_id r) used)"
        using c False by auto
      then have "card (?S (r # rs) - used) = Suc (card (?S rs - insert (ru_user_id r) used))"
        using fin by simp
      moreover have "count_loop reactions starboard message (r # rs) used points =
          count_loop reactions starboard message rs (insert (ru_user_id r) used) (points + 1)"
        using c False e by (auto simp: counts_row_def)
      ultimately show ?thesis
        using Cons.IH[OF rs, of "insert (ru_user_id r) used" "points + 1"] Cons.prems(2)
        by simp
    qed
  qed
qed

lemma reactions_dict_other:
  "k \<notin> rct_id ` set rs \<Longrightarrow> reactions_dict rs d k = d k"
  by (induction rs arbitrary: d) auto

lemma reactions_dict_distinct:
  "distinct (map rct_id rs) \<Longrightarrow> r \<in> set rs \<Longrightarrow> reactions_dict rs d (rct_id r) = Some (rct_emoji r)"
proof (induction rs arbitrary: d)
  case Nil
  then show ?case by simp
next
  case (Cons a rs)
  show ?case
  proof (cases "r = a")
    case True
    with Cons.prems show ?thesis by (simp add: reactions_dict_other)
  next
    case False
    with Cons show ?thesis by auto
  qed
qed

lemma reactions_dict_dom:
  "dom (reactions_dict rs d) = dom d \<union> rct_id ` set rs"
  by (induction rs arbitrary: d) auto

text \<open>
  Claim C4. Where the reactions of the message have distinct ids (\<open>id\<close> is the primary
  key of \<open>reactions\<close>), \<open>calculate_points\<close> returns the number of distinct users with
  a reaction of the message whose emoji is one of \<open>star_emojis\<close>, the author left out
  when \<open>self_star\<close> is false: each user counts once, and the result is not negative.
\<close>

theorem calculate_points_counts:
  assumes "distinct (map rct_id (fetch_reactions db (msg_id message)))"
  shows "calculate_points db message starboard =
         Inr (int (card (qualifying_users db message starboard)))"
proof -
  let ?rs = "fetch_reactions db (msg_id message)"
  let ?d = "reactions_dict ?rs Map.empty"
  let ?rus = "fetch_reaction_users db (map rct_id ?rs)"
  have dom: "\<forall>ru \<in> set ?rus. ru_reaction_id ru \<in> dom ?d"
    by (auto simp: reactions_dict_dom fetch_reaction_users_def)
  have row: "counts_row ?d starboard message ru \<longleftrightarrow>
      list_ex (\<lambda>r. rct_message_id r = msg_id message \<and> rct_id r = ru_reaction_id ru \<and>
                          rct_emoji r \<in> set (sb_star_emojis starboard)) (db_reactions db) \<and>
            (sb_self_star starboard \<or> Some (ru_user_id ru) \<noteq> msg_author_id message)"
    if "ru \<in> set ?rus" for ru
  proof -
    from that obtain r where r: "r \<in> set ?rs" "rct_id r = ru_reaction_id ru"
      by (auto simp: fetch_reaction_users_def)
    have look: "?d (ru_reaction_id ru) = Some (rct_emoji r)"
      using reactions_dict_distinct[OF assms r(1)] r(2) by simp
    have uniq: "r' = r" if "r' \<in> set ?rs" "rct_id r' = ru_reaction_id ru" for r'
      using that r assms by (metis distinct_map inj_on_def)
    have "list_ex (\<lambda>r. rct_message_id r = msg_id message \<and> rct_id r = ru_reaction_id ru \<and>
                          rct_emoji r \<in> set (sb_star_emojis starboard)) (db_reactions db)
          \<longleftrightarrow> rct_emoji r \<in> set (sb_star_emojis starboard)"
    proof
      assume "list_ex (\<lambda>r. rct_message_id r = msg_id message \<and> rct_id r = ru_reaction_id ru \<and>
                          rct_emoji r \<in> set (sb_star_emojis starboard)) (db_reactions db)"
      then obtain r' where "r' \<in> set ?rs" "rct_id r' = ru_reaction_id ru"
        "rct_emoji r' \<in> set (sb_star_emojis starboard)"
        by (auto simp: list_ex_iff fetch_reactions_def)
      with uniq show "rct_emoji r \<in> set (sb_star_emojis starboard)" by auto
    next
      assume "rct_emoji r \<in> set (sb_star_emojis starboard)"
      with r show "list_ex (\<lambda>r. rct_message_id r = msg_id message \<and> rct_id r = ru_reaction_id ru \<and>
                          rct_emoji r \<in> set (sb_star_emojis starboard)) (db_reactions db)"
        by (auto simp: list_ex_iff fetch_reactions_def)
    qed
    with look show ?thesis by (simp add: counts_row_def)
  qed
  have notin: "\<not> list_ex (\<lambda>r. rct_message_id r = msg_id message \<and> rct_id r = ru_reaction_id ru \<and>
                          rct_emoji r \<in> set (sb_star_emojis starboard)) (db_reactions db)"
    if "ru \<in> set (db_reaction_users db)" "ru \<notin> set ?rus" for ru
    using that by (force simp: list_ex_iff fetch_reaction_users_def fetch_reactions_def image_iff)
  have "ru_user_id ` {ru \<in> set ?rus. counts_row ?d starboard message ru} =
        qualifying_users db message starboard"
    unfolding qualifying_users_def set_map set_filter
  proof (rule arg_cong[where f="\<lambda>S. ru_user_id ` S"], rule Collect_cong)
    fix ru
    show "(ru \<in> set ?rus \<and> counts_row ?d starboard message ru) =
          (ru \<in> set (db_reaction_users db) \<and>
            list_ex (\<lambda>r. rct_message_id r = msg_id message \<and> rct_id r = ru_reaction_id ru \<and>
                          rct_emoji r \<in> set (sb_star_emojis starboard)) (db_reactions db) \<and>
            (sb_self_star starboard \<or> Some (ru_user_id ru) \<noteq> msg_author_id message))"
      using row[of ru] notin[of ru] by (auto simp: fetch_reaction_users_def)
  qed
  then show ?thesis
    using count_loop_card[OF dom, of "{}" starboard message 0]
    by (simp add: calculate_points_def Let_def)
qed

text \<open>Scenario A: the author and three other users gave a star, and the points are 3.\<close>

theorem calculate_points_scenario_A:
  "distinct (map rct_id (fetch_reactions scenario_db (msg_id scenario_message))) \<and>
   calculate_points scenario_db scenario_message scenario_starboard = Inr 3"
  using calculate_points_counts [of scenario_db scenario_message scenario_starboard]
  by (simp add: fetch_reactions_def scenario_db_def scenario_message_def
      scenario_starboard_def qualifying_users_def)

subsection \<open>The description of the embed\<close>

lemma truncate_content_length: "length (truncate_content c) \<le> 2048"
  by (auto simp: truncate_content_def slice_to_def ascii_def Let_def)

lemma truncate_content_long:
  "2048 < length c \<Longrightarrow> truncate_content c = take 2044 c"
  by (auto simp: truncate_content_def slice_to_def ascii_def Let_def nat_diff_distrib intro!: arg_cong2[where f=take])

lemma truncate_content_short:
  "length c \<le> 2048 \<Longrightarrow> truncate_content c = c"
  by (auto simp: truncate_content_def)

lemma add_field_description: "em_description (add_field n v i e) = em_description e"
  by (simp add: add_field_def)

lemma image_step_description:
  "em_description (fst (image_step nsfw acc u)) = em_description (fst acc)"
  by (cases "(nsfw, acc, u)" rule: image_step.cases) auto

lemma foldl_image_step_description:
  "em_description (fst (foldl (image_step nsfw) acc us)) = em_description (fst acc)"
  by (induction us arbitrary: acc) (simp_all add: image_step_description)

lemma reference_part_description:
  "reference_part w m e = Inr (e', j) \<Longrightarrow> em_description e' = em_description e"
  by (auto simp: reference_part_def reply_field_def add_field_description
      split: option.splits resolved.splits)

lemma embed_message_description:
  assumes "embed_message env w message color = Inr (e, files)"
  shows "em_description e = Some (truncate_content (fst (accumulated_content env message)))"
proof -
  from assms obtain col e1 rj where
    r: "reference_part w message
         (empty_embed\<lparr>em_color := Some col,
            em_description := Some (truncate_content (fst (accumulated_content env message))),
            em_author_name := Some (dm_author message),
            em_author_icon_url := Some (dm_avatar_url message)\<rparr>) = Inr (e1, rj)"
    and e: "e = fst (let e2 = add_field ZERO_WIDTH_SPACE
                             (rj @ ascii ''**[Jump to Message]('' @ jump_url message @
                                ascii '')**'') False e1;
                      (e3, image_used, extra_attachments) =
                        foldl (image_step (dm_channel_nsfw message)) (e2, False, []) (snd (accumulated_content env message));
                      to_show = join nl (map link_text (filter ue_show_link (snd (accumulated_content env message))));
                      e4 = (if length to_show \<noteq> 0
                            then add_field ZERO_WIDTH_SPACE to_show True e3 else e3)
                  in (e4\<lparr>em_timestamp := Some (dm_created_at message)\<rparr>,
                          extra_attachments))"
    by (auto simp: embed_message_def Let_def split: option.splits sum.splits prod.splits)
  have "em_description e = em_description e1"
    unfolding e Let_def
    using foldl_image_step_description[of "dm_channel_nsfw message" "(add_field ZERO_WIDTH_SPACE
                             (rj @ ascii ''**[Jump to Message]('' @ jump_url message @
                                ascii '')**'') False e1, False, [])" "snd (accumulated_content env message)"]
    by (auto simp: add_field_description split: prod.splits)
  with reference_part_description[OF r] show ?thesis by simp
qed

text \<open>
  Claim C10. The description of the embed that \<open>embed_message\<close> builds has at most
  2048 characters: where the text of the message with the text of its embeds is longer
  than 2048 characters, the description is its first 2044 characters, with no ellipsis
  appended; otherwise it is that text unchanged.
\<close>

theorem embed_message_description_bound:
  assumes "embed_message env w message color = Inr (e, files)"
  shows "\<exists>d. em_description e = Some d \<and> length d \<le> 2048 \<and>
           (if 2048 < length (fst (accumulated_content env message))
            then d = take 2044 (fst (accumulated_content env message)) \<and> length d = 2044
            else d = fst (accumulated_content env message))"
  using embed_message_description[OF assms] truncate_content_length
    truncate_content_long truncate_content_short
  by (auto simp: not_less)

lemma long_message_content:
  "fst (accumulated_content plain_env long_message) = replicate 2050 97"
  by (simp add: accumulated_content_def long_message_def scenario_live_def)

text \<open>A message of 2050 characters: the description is the first 2044.\<close>

theorem embed_message_long_message:
  "\<exists>e files. embed_message plain_env scenario_world long_message None = Inr (e, files) \<and>
     em_description e = Some (replicate 2044 97)"
proof -
  obtain e files where h: "embed_message plain_env scenario_world long_message None = Inr (e, files)"
    by (simp add: embed_message_def Let_def plain_env_def reference_part_def
        accumulated_content_def long_message_def scenario_live_def)
  from embed_message_description_bound[OF h] show ?thesis
    using h by (auto simp: long_message_content)
qed

subsection \<open>The eligibility decision\<close>

lemma try_regex_cases:
  "try_regex env pattern m st =
     (case safe_regex env (dm_system_content m) pattern of
        Inr b \<Rightarrow> (Some b, st)
      | Inl e \<Rightarrow> (None, guild_log (regex_timeout_text pattern (jump_url m)) (dm_guild_id m) st))"
  by (auto simp: try_regex_def Let_def split: sum.splits timeout_error.splits)

text \<open>
  Claim C1, as the code has it. Where the points reach \<open>required\<close> and are also at
  most \<open>required_remove\<close>, and none of the later rules fires, the baseline decides
  for the addition: \<open>add\<close> is true and \<open>delete\<close> is false. The test of
  \<open>required_remove\<close> is the \<open>elif\<close> of the test of \<open>required\<close>.
\<close>

theorem baseline_tie_adds:
  assumes "sb_required sb \<le> points" and "points \<le> sb_required_remove sb"
    and "\<not> later_rule_fires env sb msg author message"
  shows "\<exists>st'. handle_starboard_decision env sb msg (Some author) points message st =
           (Inr \<lparr>d_add = True, d_edit = sb_link_edits sb, d_delete = False,
                 d_forced = False, d_frozen = False\<rparr>, st')"
  using assms
  by (cases message)
     (auto simp: handle_starboard_decision_def later_rule_fires_def regex_rules_def
        regex_rule_def exclude_regex_rule_def try_regex_cases Let_def
        split: sum.splits prod.splits)

text \<open>
  The starboard with \<open>required = 3\<close> and \<open>required_remove = 5\<close>, at 3 points.
\<close>

theorem baseline_tie_adds_witness:
  "sb_required tie_starboard \<le> 3 \<and> 3 \<le> sb_required_remove tie_starboard \<and>
   \<not> later_rule_fires plain_env tie_starboard scenario_message scenario_author (Some scenario_live) \<and>
   (\<exists>st'. handle_starboard_decision plain_env tie_starboard scenario_message (Some scenario_author)
      3 (Some scenario_live) scenario_state =
      (Inr \<lparr>d_add = True, d_edit = True, d_delete = False, d_forced = False, d_frozen = False\<rparr>, st'))"
proof -
  have h: "sb_required tie_starboard \<le> 3" "3 \<le> sb_required_remove tie_starboard"
    "\<not> later_rule_fires plain_env tie_starboard scenario_message scenario_author (Some scenario_live)"
    by (simp_all add: tie_starboard_def scenario_starboard_def later_rule_fires_def
        scenario_message_def scenario_author_def plain_env_def)
  from baseline_tie_adds[OF h, of scenario_state] h show ?thesis
    by (simp add: tie_starboard_def scenario_starboard_def)
qed

text \<open>
  Claim C1 as the specification states it fails there: the thresholds tie, no later
  rule fires, and the decision is \<open>add\<close>, not \<open>delete\<close>.
\<close>

theorem baseline_tie_deletes_counterexample:
  "sb_required tie_starboard \<le> 3 \<and> 3 \<le> sb_required_remove tie_starboard \<and>
   \<not> later_rule_fires plain_env tie_starboard scenario_message scenario_author (Some scenario_live) \<and>
   fst (handle_starboard_decision plain_env tie_starboard scenario_message (Some scenario_author)
      3 (Some scenario_live) scenario_state) =
     Inr \<lparr>d_add = True, d_edit = True, d_delete = False, d_forced = False, d_frozen = False\<rparr>"
  by (simp add: tie_starboard_def scenario_starboard_def later_rule_fires_def
        scenario_message_def scenario_author_def plain_env_def scenario_live_def
        handle_starboard_decision_def regex_rules_def regex_rule_def exclude_regex_rule_def)

lemma regex_timeout_text_names:
  "sublist pattern (regex_timeout_text pattern jump)"
  "sublist jump (regex_timeout_text pattern jump)"
proof -
  let ?a = "ascii ''I tried to match `''"
  let ?b = "ascii ''` to [a message](''"
  let ?c = "ascii ''), but it took too long. Try improving the efficiency of your regex. If you need help, feel free to join the support server.''"
  have 1: "regex_timeout_text pattern jump = ?a @ pattern @ (?b @ jump @ ?c)"
    unfolding regex_timeout_text_def by (simp only: append_assoc)
  have 2: "regex_timeout_text pattern jump = (?a @ pattern @ ?b) @ jump @ ?c"
    unfolding regex_timeout_text_def by (simp only: append_assoc)
  show "sublist pattern (regex_timeout_text pattern jump)"
    unfolding sublist_def 1 by (intro exI) (rule refl)
  show "sublist jump (regex_timeout_text pattern jump)"
    unfolding sublist_def 2 by (intro exI) (rule refl)
qed

text \<open>
  Claim C2, as the code has it. Where the guard times out on a pattern that is not
  empty, \<open>try_regex\<close> returns \<open>None\<close>, which is neither \<open>False\<close> nor \<open>True\<close>: the
  rule of \<open>regex\<close> and the rule of \<open>exclude_regex\<close> leave the decision as the earlier
  rules made it, and a notification is dispatched whose text names the pattern and the
  jump link of the message.
\<close>

theorem regex_timeout_changes_nothing:
  "(sb_regex sb \<noteq> [] \<and>
      safe_regex env (dm_system_content m) (sb_regex sb) = Inl TimeoutError \<longrightarrow>
      regex_rule env sb m d st =
        (d, guild_log (regex_timeout_text (sb_regex sb) (jump_url m)) (dm_guild_id m) st)) \<and>
   (sb_exclude_regex sb \<noteq> [] \<and>
      safe_regex env (dm_system_content m) (sb_exclude_regex sb) = Inl TimeoutError \<longrightarrow>
      exclude_regex_rule env sb m d st =
        (d, guild_log (regex_timeout_text (sb_exclude_regex sb) (jump_url m))
              (dm_guild_id m) st)) \<and>
   sublist pattern (regex_timeout_text pattern jump) \<and>
   sublist jump (regex_timeout_text pattern jump)"
  by (simp add: regex_rule_def exclude_regex_rule_def try_regex_cases
        regex_timeout_text_names)

text \<open>
  A guard that always times out, on the pattern \<open>a+\<close>.
\<close>

theorem regex_timeout_changes_nothing_witness:
  "sb_regex regex_starboard \<noteq> [] \<and>
   safe_regex timeout_env (dm_system_content scenario_live) (sb_regex regex_starboard) =
     Inl TimeoutError \<and>
   regex_rule timeout_env regex_starboard scenario_live
     \<lparr>d_add = True, d_edit = True, d_delete = False, d_forced = False, d_frozen = False\<rparr>
     scenario_state =
     (\<lparr>d_add = True, d_edit = True, d_delete = False, d_forced = False, d_frozen = False\<rparr>,
      guild_log (regex_timeout_text (ascii ''a+'') (jump_url scenario_live)) 1 scenario_state) \<and>
   sb_exclude_regex exclude_starboard \<noteq> [] \<and>
   safe_regex timeout_env (dm_system_content scenario_live) (sb_exclude_regex exclude_starboard) =
     Inl TimeoutError \<and>
   exclude_regex_rule timeout_env exclude_starboard scenario_live
     \<lparr>d_add = True, d_edit = True, d_delete = False, d_forced = False, d_frozen = False\<rparr>
     scenario_state =
     (\<lparr>d_add = True, d_edit = True, d_delete = False, d_forced = False, d_frozen = False\<rparr>,
      guild_log (regex_timeout_text (ascii ''a+'') (jump_url scenario_live)) 1 scenario_state)"
proof -
  have h: "sb_regex regex_starboard = ascii ''a+''" "sb_exclude_regex exclude_starboard = ascii ''a+''"
    "ascii ''a+'' \<noteq> []" "dm_guild_id scenario_live = 1"
    "safe_regex timeout_env s p = Inl TimeoutError" for s p
    by (simp_all add: regex_starboard_def exclude_starboard_def scenario_starboard_def
        timeout_env_def plain_env_def ascii_def scenario_live_def)
  show ?thesis
    using regex_timeout_changes_nothing
      [of regex_starboard timeout_env scenario_live
          "\<lparr>d_add = True, d_edit = True, d_delete = False, d_forced = False, d_frozen = False\<rparr>"
          scenario_state]
      regex_timeout_changes_nothing
      [of exclude_starboard timeout_env scenario_live
          "\<lparr>d_add = True, d_edit = True, d_delete = False, d_forced = False, d_frozen = False\<rparr>"
          scenario_state]
    by (simp add: h)
qed

text \<open>
  Claim C2 as the specification states it fails there: the guard times out on
  \<open>regex\<close>, respectively on \<open>exclude_regex\<close>, and the decision stays \<open>add\<close> with no
  \<open>delete\<close>.
\<close>

theorem regex_timeout_fail_closed_counterexample:
  "sb_regex regex_starboard \<noteq> [] \<and>
   safe_regex timeout_env (dm_system_content scenario_live) (sb_regex regex_starboard) =
     Inl TimeoutError \<and>
   fst (handle_starboard_decision timeout_env regex_starboard scenario_message
          (Some scenario_author) 3 (Some scenario_live) scenario_state) =
     Inr \<lparr>d_add = True, d_edit = True, d_delete = False, d_forced = False, d_frozen = False\<rparr> \<and>
   sb_exclude_regex exclude_starboard \<noteq> [] \<and>
   safe_regex timeout_env (dm_system_content scenario_live) (sb_exclude_regex exclude_starboard) =
     Inl TimeoutError \<and>
   fst (handle_starboard_decision timeout_env exclude_starboard scenario_message
          (Some scenario_author) 3 (Some scenario_live) scenario_state) =
     Inr \<lparr>d_add = True, d_edit = True, d_delete = False, d_forced = False, d_frozen = False\<rparr>"
proof -
  have h: "sb_regex regex_starboard = ascii ''a+''" "sb_exclude_regex exclude_starboard = ascii ''a+''"
    "sb_regex exclude_starboard = []" "sb_exclude_regex regex_starboard = []"
    "ascii ''a+'' \<noteq> []"
    "safe_regex timeout_env s p = Inl TimeoutError" for s p
    by (simp_all add: regex_starboard_def exclude_starboard_def scenario_starboard_def
        timeout_env_def plain_env_def ascii_def)
  show ?thesis
    by (simp add: h handle_starboard_decision_def regex_rules_def regex_rule_def
        exclude_regex_rule_def try_regex_cases)
       (simp add: regex_starboard_def exclude_starboard_def scenario_starboard_def
        scenario_message_def)
qed

text \<open>
  Claim C5. For a message whose \<open>forced\<close> list holds the id of the starboard the
  decision is \<open>add = True\<close>, \<open>delete = False\<close>, \<open>forced = True\<close>, whatever the points,
  the author, the live message, the patterns and the flag \<open>frozen\<close> are: the forced
  rule is the last one.
\<close>

theorem forced_overrides:
  assumes "sb_id sb \<in> set (msg_forced msg)"
  shows "\<exists>st'. handle_starboard_decision env sb msg (Some author) points message st =
           (Inr \<lparr>d_add = True, d_edit = sb_link_edits sb, d_delete = False,
                 d_forced = True, d_frozen = msg_frozen msg\<rparr>, st')"
  using assms
  by (cases message)
     (auto simp: handle_starboard_decision_def regex_rules_def
        regex_rule_def exclude_regex_rule_def try_regex_cases Let_def
        split: sum.splits prod.splits)

text \<open>
  A frozen message of a bot, with no points and no live message, forced onto a
  starboard that does not allow bots.
\<close>

theorem forced_overrides_witness:
  "sb_id no_bots_starboard \<in> set (msg_forced forced_message) \<and> msg_frozen forced_message \<and>
   \<not> sb_allow_bots no_bots_starboard \<and> usr_is_bot bot_author \<and>
   (\<exists>st'. handle_starboard_decision plain_env no_bots_starboard forced_message (Some bot_author)
      0 None scenario_state =
      (Inr \<lparr>d_add = True, d_edit = True, d_delete = False, d_forced = True, d_frozen = True\<rparr>, st'))"
proof -
  have h: "sb_id no_bots_starboard \<in> set (msg_forced forced_message)"
    by (simp add: no_bots_starboard_def scenario_starboard_def forced_message_def scenario_message_def)
  from forced_overrides[OF h, of plain_env bot_author 0 None scenario_state] h show ?thesis
    by (simp add: no_bots_starboard_def scenario_starboard_def forced_message_def
        scenario_message_def bot_author_def)
qed


subsection \<open>The points of a pass\<close>

lemma calculate_points_returns: "\<exists>p. calculate_points db message starboard = Inr p"
proof -
  have "\<forall>ru \<in> set (fetch_reaction_users db (map rct_id (fetch_reactions db (msg_id message)))).
          ru_reaction_id ru \<in> dom (reactions_dict (fetch_reactions db (msg_id message)) Map.empty)"
    by (auto simp: reactions_dict_dom fetch_reaction_users_def)
  from count_loop_card[OF this, of "{}" starboard message 0] show ?thesis
    by (simp add: calculate_points_def Let_def)
qed

text \<open>
  Claim C6. A pass of \<open>handle_starboard\<close> goes on with the points stored on the link
  exactly when the message is frozen and the link exists; when the message is not
  frozen, or there is no link, it goes on with the points that \<open>calculate_points\<close>
  returns, and \<open>calculate_points\<close> does return.
\<close>

theorem points_cached_iff_frozen_and_linked:
  "(msg_frozen msg \<and>
      fetchrow_starboard_message (st_db st) (msg_id msg) (sb_id sb) = Some link \<longrightarrow>
      handle_starboard_points (st_db st) sb msg (Some link) = Inr (sbm_points link) \<and>
      handle_starboard env sb msg author st =
        handle_starboard_rest env sb msg author (Some link) (sbm_points link) st) \<and>
   (\<not> msg_frozen msg \<or> fetchrow_starboard_message (st_db st) (msg_id msg) (sb_id sb) = None \<longrightarrow>
      (\<exists>p. calculate_points (st_db st) msg sb = Inr p \<and>
         handle_starboard_points (st_db st) sb msg
           (fetchrow_starboard_message (st_db st) (msg_id msg) (sb_id sb)) = Inr p \<and>
         handle_starboard env sb msg author st =
           handle_starboard_rest env sb msg author
             (fetchrow_starboard_message (st_db st) (msg_id msg) (sb_id sb)) p st))"
proof (intro conjI impI)
  assume "msg_frozen msg \<and>
      fetchrow_starboard_message (st_db st) (msg_id msg) (sb_id sb) = Some link"
  then show "handle_starboard_points (st_db st) sb msg (Some link) = Inr (sbm_points link)"
    and "handle_starboard env sb msg author st =
        handle_starboard_rest env sb msg author (Some link) (sbm_points link) st"
    by (simp_all add: handle_starboard_def handle_starboard_points_def)
next
  assume a: "\<not> msg_frozen msg \<or>
      fetchrow_starboard_message (st_db st) (msg_id msg) (sb_id sb) = None"
  obtain p where p: "calculate_points (st_db st) msg sb = Inr p"
    using calculate_points_returns by blast
  from a have "handle_starboard_points (st_db st) sb msg
           (fetchrow_starboard_message (st_db st) (msg_id msg) (sb_id sb)) = Inr p"
    using p by (auto simp: handle_starboard_points_def split: option.splits)
  with p show "\<exists>p. calculate_points (st_db st) msg sb = Inr p \<and>
         handle_starboard_points (st_db st) sb msg
           (fetchrow_starboard_message (st_db st) (msg_id msg) (sb_id sb)) = Inr p \<and>
         handle_starboard env sb msg author st =
           handle_starboard_rest env sb msg author
             (fetchrow_starboard_message (st_db st) (msg_id msg) (sb_id sb)) p st"
    by (simp add: handle_starboard_def)
qed

text \<open>
  The scenario with a link of 7 points: the frozen message goes on with 7 points, the
  message that is not frozen with the 3 points of its reactions.
\<close>

theorem points_cached_iff_frozen_and_linked_witness:
  "msg_frozen frozen_message \<and>
   fetchrow_starboard_message (st_db linked_state) (msg_id frozen_message)
     (sb_id scenario_starboard) = Some scenario_link \<and>
   handle_starboard_points (st_db linked_state) scenario_starboard frozen_message
     (Some scenario_link) = Inr 7 \<and>
   handle_starboard plain_env scenario_starboard frozen_message (Some scenario_author)
     linked_state =
   handle_starboard_rest plain_env scenario_starboard frozen_message (Some scenario_author)
     (Some scenario_link) 7 linked_state \<and>
   \<not> msg_frozen scenario_message \<and>
   handle_starboard_points (st_db linked_state) scenario_starboard scenario_message
     (Some scenario_link) = Inr 3 \<and>
   handle_starboard plain_env scenario_starboard scenario_message (Some scenario_author)
     linked_state =
   handle_starboard_rest plain_env scenario_starboard scenario_message (Some scenario_author)
     (Some scenario_link) 3 linked_state"
proof -
  have f: "fetchrow_starboard_message (st_db linked_state) 10 500 = Some scenario_link"
    by (simp add: fetchrow_starboard_message_def linked_state_def scenario_link_def)
  have c: "calculate_points (st_db linked_state) scenario_message scenario_starboard = Inr 3"
    by (simp add: calculate_points_def fetch_reactions_def fetch_reaction_users_def
      scenario_db_def scenario_starboard_def scenario_message_def linked_state_def Let_def)
  show ?thesis
    using points_cached_iff_frozen_and_linked
      [of frozen_message linked_state scenario_starboard scenario_link plain_env
          "Some scenario_author"]
      points_cached_iff_frozen_and_linked
      [of scenario_message linked_state scenario_starboard scenario_link plain_env
          "Some scenario_author"] f c
    by (simp add: frozen_message_def scenario_message_def scenario_starboard_def
        scenario_link_def)
qed

subsection \<open>What the decision leaves alone\<close>

text \<open>The rules change nothing but the trace, to which they add notifications only.\<close>

lemma try_regex_frame:
  "\<exists>evs. snd (try_regex env pattern m st) = st\<lparr>st_trace := st_trace st @ evs\<rparr> \<and>
     (\<forall>ev \<in> set evs. is_guild_log ev)"
proof (cases "safe_regex env (dm_system_content m) pattern")
  case (Inl a)
  then have "snd (try_regex env pattern m st) =
      st\<lparr>st_trace := st_trace st @
        [Guild_log (regex_timeout_text pattern (jump_url m)) (ascii ''error'') (dm_guild_id m)]\<rparr>"
    by (simp add: try_regex_cases guild_log_def emit_def)
  then show ?thesis by (intro exI[of _ "[Guild_log (regex_timeout_text pattern (jump_url m)) (ascii ''error'') (dm_guild_id m)]"]) simp
next
  case (Inr b)
  then have "snd (try_regex env pattern m st) = st\<lparr>st_trace := st_trace st @ []\<rparr>"
    by (simp add: try_regex_cases)
  then show ?thesis by (intro exI[of _ "[]"]) simp
qed

lemma frame_trans:
  assumes "\<exists>evs. st1 = st\<lparr>st_trace := st_trace st @ evs\<rparr> \<and> (\<forall>ev \<in> set evs. P ev)"
    and "\<exists>evs. st2 = st1\<lparr>st_trace := st_trace st1 @ evs\<rparr> \<and> (\<forall>ev \<in> set evs. P ev)"
  shows "\<exists>evs. st2 = st\<lparr>st_trace := st_trace st @ evs\<rparr> \<and> (\<forall>ev \<in> set evs. P ev)"
proof -
  from assms obtain e1 e2 where 1: "st1 = st\<lparr>st_trace := st_trace st @ e1\<rparr>" "\<forall>ev \<in> set e1. P ev"
    and 2: "st2 = st1\<lparr>st_trace := st_trace st1 @ e2\<rparr>" "\<forall>ev \<in> set e2. P ev" by blast
  have "st2 = st\<lparr>st_trace := st_trace st @ (e1 @ e2)\<rparr>" using 1 2 by simp
  moreover have "\<forall>ev \<in> set (e1 @ e2). P ev" using 1 2 by auto
  ultimately show ?thesis by blast
qed

lemma frame_refl: "\<exists>evs. st = st\<lparr>st_trace := st_trace st @ evs\<rparr> \<and> (\<forall>ev \<in> set evs. P ev)"
  by (intro exI[of _ "[]"]) simp

lemma regex_rule_frame:
  "\<exists>evs. snd (regex_rule env sb m d st) = st\<lparr>st_trace := st_trace st @ evs\<rparr> \<and>
     (\<forall>ev \<in> set evs. is_guild_log ev)"
  using try_regex_frame[of env "sb_regex sb" m st] frame_refl[of st is_guild_log]
  by (auto simp: regex_rule_def split: prod.splits)

lemma exclude_regex_rule_frame:
  "\<exists>evs. snd (exclude_regex_rule env sb m d st) = st\<lparr>st_trace := st_trace st @ evs\<rparr> \<and>
     (\<forall>ev \<in> set evs. is_guild_log ev)"
  using try_regex_frame[of env "sb_exclude_regex sb" m st] frame_refl[of st is_guild_log]
  by (auto simp: exclude_regex_rule_def split: prod.splits)

lemma regex_rules_frame:
  "\<exists>evs. snd (regex_rules env sb message d st) = st\<lparr>st_trace := st_trace st @ evs\<rparr> \<and>
     (\<forall>ev \<in> set evs. is_guild_log ev)"
proof (cases message)
  case None
  then show ?thesis using frame_refl[of st is_guild_log] by (simp add: regex_rules_def)
next
  case (Some m)
  obtain d1 st1 where r: "regex_rule env sb m d st = (d1, st1)" by (cases "regex_rule env sb m d st")
  have a: "\<exists>evs. st1 = st\<lparr>st_trace := st_trace st @ evs\<rparr> \<and> (\<forall>ev \<in> set evs. is_guild_log ev)"
    using regex_rule_frame[of env sb m d st] r by simp
  have b: "\<exists>evs. snd (exclude_regex_rule env sb m d1 st1) = st1\<lparr>st_trace := st_trace st1 @ evs\<rparr> \<and>
     (\<forall>ev \<in> set evs. is_guild_log ev)"
    by (rule exclude_regex_rule_frame)
  from frame_trans[OF a b] Some r show ?thesis by (simp add: regex_rules_def)
qed

lemma handle_starboard_decision_split:
  "handle_starboard_decision env sb msg author points message st =
     (if \<not> sb_allow_bots sb \<and> author = None then (Inl TypeError, st)
      else (case regex_rules env sb message (rules_before_regex sb msg author points message) st of
              (d5, st1) \<Rightarrow> (Inr (rules_after_regex sb msg d5), st1)))"
  unfolding handle_starboard_decision_def rules_before_regex_def rules_after_regex_def Let_def
  by (rule refl)

lemma decision_frame:
  "\<exists>evs. snd (handle_starboard_decision env sb msg author points message st) =
       st\<lparr>st_trace := st_trace st @ evs\<rparr> \<and> (\<forall>ev \<in> set evs. is_guild_log ev)"
proof (cases "\<not> sb_allow_bots sb \<and> author = None")
  case True
  then show ?thesis
    using frame_refl[of st is_guild_log] by (simp add: handle_starboard_decision_split)
next
  case False
  then have "snd (handle_starboard_decision env sb msg author points message st) =
      snd (regex_rules env sb message (rules_before_regex sb msg author points message) st)"
    by (auto simp add: handle_starboard_decision_split case_prod_beta)
  then show ?thesis using regex_rules_frame by simp
qed

subsection \<open>Trashed messages\<close>


lemma new_events_append [simp]: "new_events st (st\<lparr>st_trace := st_trace st @ evs\<rparr>) = evs"
  by (simp add: new_events_def)
















subsection \<open>A send that is refused\<close>

lemma send_forbidden_text_names: "sublist (ascii ''Send Messages'') (send_forbidden_text c)"
proof -
  have "ascii '', but I'm missing the proper permissions. Please make sure I have the `Send Messages` permission.'' =
        ascii '', but I'm missing the proper permissions. Please make sure I have the `'' @
        ascii ''Send Messages'' @ ascii ''` permission.''"
    by (simp add: ascii_def)
  then have "send_forbidden_text c =
     (ascii ''I tried to send a starboard message to '' @ mention c @
      ascii '', but I'm missing the proper permissions. Please make sure I have the `'') @
        ascii ''Send Messages'' @ ascii ''` permission.''"
    unfolding send_forbidden_text_def by (simp only: append_assoc)
  then show ?thesis unfolding sublist_def by (intro exI)
qed

lemma send_mirror_forbidden:
  "\<not> w_can_send (st_world st) (sb_id sb) \<Longrightarrow>
   send_mirror env sb msg points m text emb files st =
     (Returned, st\<lparr>st_trace := st_trace st @
        [Remote_send (sb_id sb) text emb files,
         Guild_log (send_forbidden_text (sb_id sb)) (ascii ''error'') (msg_guild_id msg)]\<rparr>)"
  by (simp add: send_mirror_def Let_def emit_def channel_send_def guild_log_def)

lemma no_link_added_refl: "no_link_added st st"
  unfolding no_link_added_def by (auto intro: exI[of _ "[]"])

lemma no_link_added_trans:
  assumes "no_link_added st st1" and "no_link_added st1 st2"
  shows "no_link_added st st2"
proof -
  from assms obtain e1 e2 where "st_trace st1 = st_trace st @ e1" "\<forall>ev \<in> set e1. \<not> is_db_create ev"
    "st_trace st2 = st_trace st1 @ e2" "\<forall>ev \<in> set e2. \<not> is_db_create ev"
    unfolding no_link_added_def by blast
  then have "st_trace st2 = st_trace st @ (e1 @ e2)" "\<forall>ev \<in> set (e1 @ e2). \<not> is_db_create ev"
    by auto
  then have "\<exists>evs. st_trace st2 = st_trace st @ evs \<and> (\<forall>ev \<in> set evs. \<not> is_db_create ev)"
    by blast
  moreover have "set (map sbm_id (db_starboard_messages (st_db st2))) \<subseteq>
        set (map sbm_id (db_starboard_messages (st_db st)))"
    using assms unfolding no_link_added_def by (meson subset_trans)
  moreover have "w_can_send (st_world st2) = w_can_send (st_world st)"
    using assms unfolding no_link_added_def by simp
  ultimately show ?thesis unfolding no_link_added_def by blast
qed

lemma no_link_added_trace:
  assumes "\<forall>ev \<in> set evs. \<not> is_db_create ev"
  shows "no_link_added st (st\<lparr>st_trace := st_trace st @ evs\<rparr>)"
  using assms unfolding no_link_added_def by auto

lemma no_link_added_set_points: "no_link_added st (set_points p i st)"
  unfolding no_link_added_def set_points_def emit_def execute_set_points_def
  by (auto simp: image_iff intro: exI[of _ "[Db_set_points p i]"])

lemma no_link_added_delete: "no_link_added st (delete_starboard_message i st)"
  unfolding no_link_added_def delete_starboard_message_def emit_def execute_delete_def
  by (auto intro: exI[of _ "[Db_delete i]"])

lemma no_link_added_decision:
  "no_link_added st (snd (handle_starboard_decision env sb msg author points message st))"
proof -
  obtain evs where e: "snd (handle_starboard_decision env sb msg author points message st) =
       st\<lparr>st_trace := st_trace st @ evs\<rparr>" "\<forall>ev \<in> set evs. is_guild_log ev"
    using decision_frame by blast
  have "\<not> is_db_create ev" if "is_guild_log ev" for ev using that by (cases ev) auto
  with e(2) have "\<forall>ev \<in> set evs. \<not> is_db_create ev" by blast
  from no_link_added_trace[OF this] e(1) show ?thesis by simp
qed

lemma no_link_added_resolve_mirror:
  "no_link_added st (snd (resolve_mirror msg link st))"
  by (auto simp: resolve_mirror_def no_link_added_refl no_link_added_delete split: option.splits)

lemma no_link_added_world:
  assumes "\<forall>ev \<in> set evs. \<not> is_db_create ev" and "w_can_send w = w_can_send (st_world st)"
  shows "no_link_added st (st\<lparr>st_trace := st_trace st @ evs, st_world := w\<rparr>)"
  using assms unfolding no_link_added_def by auto

lemma no_link_added_edit_mirror:
  "no_link_added st (snd (edit_mirror sm text emb st))"
proof (cases "message_edit (st_world st) sm text emb")
  case (Inl err)
  then have "snd (edit_mirror sm text emb st) = st\<lparr>st_trace := st_trace st @ [Remote_edit (dm_id sm) text emb]\<rparr>"
    by (cases err) (simp_all add: edit_mirror_def Let_def emit_def)
  then show ?thesis using no_link_added_trace[of "[Remote_edit (dm_id sm) text emb]" st] by simp
next
  case (Inr w)
  then have w: "w_can_send w = w_can_send (st_world st)"
    by (auto simp: message_edit_def split: if_splits)
  from Inr have "snd (edit_mirror sm text emb st) =
      st\<lparr>st_trace := st_trace st @ [Remote_edit (dm_id sm) text emb], st_world := w\<rparr>"
    by (simp add: edit_mirror_def Let_def emit_def)
  then show ?thesis using no_link_added_world[of "[Remote_edit (dm_id sm) text emb]" w st] w by simp
qed

lemma no_link_added_remote_delete:
  "no_link_added st
     (snd (case message_delete (st_world (emit (Remote_delete i) st)) sm of
             Inr w \<Rightarrow> (Returned, (emit (Remote_delete i) st)\<lparr>st_world := w\<rparr>)
           | Inl NotFound \<Rightarrow> (Returned, emit (Remote_delete i) st)
           | Inl err \<Rightarrow> (Raised err, emit (Remote_delete i) st)))"
proof (cases "message_delete (st_world st) sm")
  case (Inl err)
  then show ?thesis
    using no_link_added_trace[of "[Remote_delete i]" st]
    by (cases err) (simp_all add: emit_def)
next
  case (Inr w)
  then have w: "w_can_send w = w_can_send (st_world st)"
    by (auto simp: message_delete_def split: if_splits)
  with Inr show ?thesis
    using no_link_added_world[of "[Remote_delete i]" w st] by (simp add: emit_def)
qed

lemma no_link_added_action:
  assumes "\<not> w_can_send (st_world st) (sb_id sb)"
  shows "no_link_added st (snd (handle_starboard_action env sb msg points message d sm st))"
proof (cases "d_delete d")
  case True
  show ?thesis
  proof (cases sm)
    case None
    with True show ?thesis by (simp add: handle_starboard_action_def no_link_added_refl)
  next
    case (Some m)
    have "no_link_added (delete_starboard_message (dm_id m) st)
       (snd (case message_delete (st_world (emit (Remote_delete (dm_id m)) (delete_starboard_message (dm_id m) st))) m of
             Inr w \<Rightarrow> (Returned, (emit (Remote_delete (dm_id m)) (delete_starboard_message (dm_id m) st))\<lparr>st_world := w\<rparr>)
           | Inl NotFound \<Rightarrow> (Returned, emit (Remote_delete (dm_id m)) (delete_starboard_message (dm_id m) st))
           | Inl err \<Rightarrow> (Raised err, emit (Remote_delete (dm_id m)) (delete_starboard_message (dm_id m) st))))"
      by (rule no_link_added_remote_delete)
    from no_link_added_trans[OF no_link_added_delete this] True Some show ?thesis
      by (simp add: handle_starboard_action_def Let_def)
  qed
next
  case False
  show ?thesis
  proof (cases "case message of None \<Rightarrow> Inr (None, [])
               | Some m \<Rightarrow>
                   (case embed_message env (st_world st) m (sb_color sb) of
                      Inl err \<Rightarrow> Inl err
                    | Inr (e, files) \<Rightarrow> Inr (Some e, files))")
    case (Inl err)
    with False show ?thesis by (simp add: handle_starboard_action_def no_link_added_refl)
  next
    case (Inr p)
    obtain emb files where p: "p = (emb, files)" by (cases p)
    have send: "no_link_added st (snd (send_mirror env sb msg points m t emb files st))" for m t
      using assms no_link_added_trace[of "[Remote_send (sb_id sb) t emb files,
         Guild_log (send_forbidden_text (sb_id sb)) (ascii ''error'') (msg_guild_id msg)]" st]
      by (simp add: send_mirror_forbidden)
    show ?thesis
      using False Inr p send
      by (auto simp: handle_starboard_action_def Let_def no_link_added_refl
          no_link_added_edit_mirror split: option.splits)
  qed
qed

lemma no_link_added_handle_starboard:
  assumes "\<not> w_can_send (st_world st) (sb_id sb)"
  shows "no_link_added st (snd (handle_starboard env sb msg author st))"
proof (cases "handle_starboard_points (st_db st) sb msg
                (fetchrow_starboard_message (st_db st) (msg_id msg) (sb_id sb))")
  case (Inl err)
  then show ?thesis by (simp add: handle_starboard_def no_link_added_refl)
next
  case (Inr points)
  let ?link = "fetchrow_starboard_message (st_db st) (msg_id msg) (sb_id sb)"
  let ?st1 = "case ?link of None \<Rightarrow> st | Some link \<Rightarrow> set_points points (sbm_id link) st"
  let ?message = "fetch_message (st_world ?st1) (msg_guild_id msg) (msg_channel_id msg) (msg_id msg)"
  have 1: "no_link_added st ?st1"
    by (auto simp: no_link_added_refl no_link_added_set_points split: option.splits)
  obtain r st2 where r: "handle_starboard_decision env sb msg author points ?message ?st1 = (r, st2)"
    by (cases "handle_starboard_decision env sb msg author points ?message ?st1")
  have 2: "no_link_added ?st1 st2"
    using no_link_added_decision[of ?st1 env sb msg author points ?message] r by simp
  obtain sm st3 where s: "resolve_mirror msg ?link st2 = (sm, st3)"
    by (cases "resolve_mirror msg ?link st2")
  have 3: "no_link_added st2 st3"
    using no_link_added_resolve_mirror[of st2 msg ?link] s by simp
  have 12: "no_link_added st st2" using 1 2 no_link_added_trans by blast
  have 13: "no_link_added st st3" using 12 3 no_link_added_trans by blast
  then have "\<not> w_can_send (st_world st3) (sb_id sb)"
    using assms by (simp add: no_link_added_def)
  from no_link_added_action[OF this] have 4:
    "no_link_added st3 (snd (handle_starboard_action env sb msg points ?message d sm st3))" for d
    by simp
  show ?thesis
  proof (cases r)
    case (Inl err)
    with Inr r have "snd (handle_starboard env sb msg author st) = st2"
      by (simp add: handle_starboard_def handle_starboard_rest_def Let_def)
    with 12 show ?thesis by simp
  next
    case r': (Inr d)
    with Inr r s
    have "snd (handle_starboard env sb msg author st) =
        snd (handle_starboard_action env sb msg points ?message d sm st3)"
      by (simp add: handle_starboard_def handle_starboard_rest_def Let_def)
    with 13 4[of d] show ?thesis using no_link_added_trans by metis
  qed
qed

lemma send_forbidden_pass:
  assumes nolink: "fetchrow_starboard_message (st_db st) (msg_id msg) (sb_id sb) = None"
    and live: "fetch_message (st_world st) (msg_guild_id msg) (msg_channel_id msg) (msg_id msg) = Some m"
    and pts: "calculate_points (st_db st) msg sb = Inr points"
    and dec: "fst (handle_starboard_decision env sb msg author points (Some m) st) = Inr d"
    and add: "d_add d" and del: "\<not> d_delete d"
    and emb: "embed_message env (st_world st) m (sb_color sb) = Inr (e, files)"
    and perm: "\<not> w_can_send (st_world st) (sb_id sb)"
  shows "\<exists>st' evs. handle_starboard env sb msg author st = (Returned, st') \<and>
           st_db st' = st_db st \<and> st_world st' = st_world st \<and>
           st_trace st' = st_trace st @ evs @
             [Remote_send (sb_id sb) (plain_text env sb msg points d) (Some e) files,
              Guild_log (send_forbidden_text (sb_id sb)) (ascii ''error'') (msg_guild_id msg)] \<and>
           (\<forall>ev \<in> set evs. is_guild_log ev) \<and>
           sublist (ascii ''Send Messages'') (send_forbidden_text (sb_id sb))"
proof -
  obtain r st2 where r: "handle_starboard_decision env sb msg author points (Some m) st = (r, st2)"
    by (cases "handle_starboard_decision env sb msg author points (Some m) st")
  with dec have r': "r = Inr d" by simp
  obtain evs where evs: "st2 = st\<lparr>st_trace := st_trace st @ evs\<rparr>" "\<forall>ev \<in> set evs. is_guild_log ev"
    using decision_frame[of env sb msg author points "Some m" st] r by auto
  have p: "handle_starboard_points (st_db st) sb msg None = Inr points"
    using pts by (simp add: handle_starboard_points_def)
  have w2: "st_world st2 = st_world st" using evs by simp
  have act: "handle_starboard_action env sb msg points (Some m) d None st2 =
      (Returned, st2\<lparr>st_trace := st_trace st2 @
        [Remote_send (sb_id sb) (plain_text env sb msg points d) (Some e) files,
         Guild_log (send_forbidden_text (sb_id sb)) (ascii ''error'') (msg_guild_id msg)]\<rparr>)"
    using add del emb perm w2
    by (simp add: handle_starboard_action_def send_mirror_forbidden)
  have "handle_starboard env sb msg author st =
      (Returned, st2\<lparr>st_trace := st_trace st2 @
        [Remote_send (sb_id sb) (plain_text env sb msg points d) (Some e) files,
         Guild_log (send_forbidden_text (sb_id sb)) (ascii ''error'') (msg_guild_id msg)]\<rparr>)"
    using nolink p live r r' act
    by (simp add: handle_starboard_def handle_starboard_rest_def resolve_mirror_def Let_def)
  then show ?thesis
    using evs send_forbidden_text_names by auto
qed

text \<open>
  Claim C9. Where there is no link, the live source message is resolved, the decision
  is to add and not to delete, the content is rendered, and the bot may not send to the
  channel of the starboard, the pass returns without an exception; the store and the
  platform are exactly as before the pass; the trace ends with the attempt to send and
  a notification whose text names the permission \<open>Send Messages\<close>. And in every pass
  in which the bot may not send to the channel, no link is created: the link and its
  points are persisted only after a send that succeeded.
\<close>

theorem send_forbidden_leaves_state:
  "(fetchrow_starboard_message (st_db st) (msg_id msg) (sb_id sb) = None \<and>
    fetch_message (st_world st) (msg_guild_id msg) (msg_channel_id msg) (msg_id msg) = Some m \<and>
    calculate_points (st_db st) msg sb = Inr points \<and>
    fst (handle_starboard_decision env sb msg author points (Some m) st) = Inr d \<and>
    d_add d \<and> \<not> d_delete d \<and>
    embed_message env (st_world st) m (sb_color sb) = Inr (e, files) \<and>
    \<not> w_can_send (st_world st) (sb_id sb) \<longrightarrow>
    (\<exists>st' evs. handle_starboard env sb msg author st = (Returned, st') \<and>
       st_db st' = st_db st \<and> st_world st' = st_world st \<and>
       st_trace st' = st_trace st @ evs @
         [Remote_send (sb_id sb) (plain_text env sb msg points d) (Some e) files,
          Guild_log (send_forbidden_text (sb_id sb)) (ascii ''error'') (msg_guild_id msg)] \<and>
       (\<forall>ev \<in> set evs. is_guild_log ev) \<and>
       sublist (ascii ''Send Messages'') (send_forbidden_text (sb_id sb)))) \<and>
   (\<not> w_can_send (st_world st) (sb_id sb) \<longrightarrow>
    no_link_added st (snd (handle_starboard env sb msg author st)))"
  using send_forbidden_pass[of st msg sb m points env author d e files]
    no_link_added_handle_starboard[of st sb env msg author]
  by blast

text \<open>
  The scenario on a platform where the bot may not send to channel 500.
\<close>

theorem send_forbidden_leaves_state_witness:
  "fetchrow_starboard_message (st_db forbidden_state) (msg_id scenario_message)
     (sb_id scenario_starboard) = None \<and>
   fetch_message (st_world forbidden_state) (msg_guild_id scenario_message)
     (msg_channel_id scenario_message) (msg_id scenario_message) = Some scenario_live \<and>
   calculate_points (st_db forbidden_state) scenario_message scenario_starboard = Inr 3 \<and>
   fst (handle_starboard_decision plain_env scenario_starboard scenario_message
      (Some scenario_author) 3 (Some scenario_live) forbidden_state) =
     Inr \<lparr>d_add = True, d_edit = True, d_delete = False, d_forced = False, d_frozen = False\<rparr> \<and>
   \<not> w_can_send (st_world forbidden_state) (sb_id scenario_starboard) \<and>
   fst (handle_starboard plain_env scenario_starboard scenario_message (Some scenario_author)
          forbidden_state) = Returned \<and>
   st_db (snd (handle_starboard plain_env scenario_starboard scenario_message
                 (Some scenario_author) forbidden_state)) = st_db forbidden_state \<and>
   st_world (snd (handle_starboard plain_env scenario_starboard scenario_message
                 (Some scenario_author) forbidden_state)) = st_world forbidden_state \<and>
   last (st_trace (snd (handle_starboard plain_env scenario_starboard scenario_message
                 (Some scenario_author) forbidden_state))) =
     Guild_log (send_forbidden_text 500) (ascii ''error'') 1"
proof -
  let ?d = "\<lparr>d_add = True, d_edit = True, d_delete = False, d_forced = False, d_frozen = False\<rparr>"
  have h1: "fetchrow_starboard_message (st_db forbidden_state) (msg_id scenario_message)
     (sb_id scenario_starboard) = None"
    by (simp add: fetchrow_starboard_message_def forbidden_state_def scenario_state_def
        scenario_db_def)
  have h2: "fetch_message (st_world forbidden_state) (msg_guild_id scenario_message)
     (msg_channel_id scenario_message) (msg_id scenario_message) = Some scenario_live"
    by (simp add: fetch_message_def forbidden_state_def scenario_state_def scenario_world_def
        scenario_message_def scenario_live_def)
  have h3: "calculate_points (st_db forbidden_state) scenario_message scenario_starboard = Inr 3"
    by (simp add: calculate_points_def fetch_reactions_def fetch_reaction_users_def
      scenario_db_def scenario_starboard_def scenario_message_def forbidden_state_def
      scenario_state_def Let_def)
  have h4: "fst (handle_starboard_decision plain_env scenario_starboard scenario_message
      (Some scenario_author) 3 (Some scenario_live) forbidden_state) = Inr ?d"
    by (simp add: handle_starboard_decision_def regex_rules_def regex_rule_def
        exclude_regex_rule_def scenario_starboard_def scenario_message_def)
  have h5: "d_add ?d" "\<not> d_delete ?d" by simp_all
  obtain e files where h6: "embed_message plain_env (st_world forbidden_state) scenario_live
      (sb_color scenario_starboard) = Inr (e, files)"
    by (simp add: embed_message_def Let_def plain_env_def reference_part_def
        accumulated_content_def scenario_live_def scenario_starboard_def)
  have h7: "\<not> w_can_send (st_world forbidden_state) (sb_id scenario_starboard)"
    by (simp add: forbidden_state_def)
  have i: "sb_id scenario_starboard = 500" "msg_guild_id scenario_message = 1"
    by (simp_all add: scenario_starboard_def scenario_message_def)
  from send_forbidden_leaves_state
    [of forbidden_state scenario_message scenario_starboard scenario_live 3 plain_env
        "Some scenario_author" ?d e files] h1 h2 h3 h4 h5 h6 h7
  have "(\<exists>st' evs. handle_starboard plain_env scenario_starboard scenario_message
            (Some scenario_author) forbidden_state = (Returned, st') \<and>
       st_db st' = st_db forbidden_state \<and> st_world st' = st_world forbidden_state \<and>
       st_trace st' = st_trace forbidden_state @ evs @
         [Remote_send (sb_id scenario_starboard)
            (plain_text plain_env scenario_starboard scenario_message 3 ?d) (Some e) files,
          Guild_log (send_forbidden_text (sb_id scenario_starboard)) (ascii ''error'')
            (msg_guild_id scenario_message)])"
    by blast
  with h1 h2 h3 h4 h7 i show ?thesis by auto
qed

subsection \<open>What the steps of a pass add to the trace\<close>


lemma adds_only_trace_eq: "st_trace st' = st_trace st \<Longrightarrow> adds_only P st st'"
  by (simp add: adds_only_def new_events_def)










subsection \<open>A send that succeeds\<close>





subsection \<open>A link whose mirror is not resolved\<close>


lemma delete_frame:
  "st_db (delete_starboard_message i st) = execute_delete i (st_db st)"
  "st_world (delete_starboard_message i st) = st_world st"
  "st_trace (delete_starboard_message i st) = st_trace st @ [Db_delete i]"
  by (simp_all add: delete_starboard_message_def emit_def)



subsection \<open>Two passes in a row\<close>

text \<open>The decision and the points of a pass do not depend on the trace.\<close>

lemma try_regex_pure:
  "fst (try_regex env pattern m st) = regex_verdict env pattern m"
  by (simp add: try_regex_cases regex_verdict_def split: sum.splits)

lemma regex_rules_pure:
  "fst (regex_rules env sb message d st) = pure_regex_rules env sb message d"
proof (cases message)
  case None
  then show ?thesis by (simp add: regex_rules_def pure_regex_rules_def)
next
  case (Some m)
  have 1: "fst (regex_rule env sb m d st) =
      (if sb_regex sb \<noteq> [] \<and> regex_verdict env (sb_regex sb) m = Some False
                    then d\<lparr>d_add := False, d_delete := True\<rparr> else d)" for d st
    using try_regex_pure[of env "sb_regex sb" m st]
    by (auto simp: regex_rule_def split: prod.splits)
  have 2: "fst (exclude_regex_rule env sb m d st) =
      (if sb_exclude_regex sb \<noteq> [] \<and> regex_verdict env (sb_exclude_regex sb) m = Some True
                    then d\<lparr>d_add := False, d_delete := True\<rparr> else d)" for d st
    using try_regex_pure[of env "sb_exclude_regex sb" m st]
    by (auto simp: exclude_regex_rule_def split: prod.splits)
  obtain d1 st1 where r: "regex_rule env sb m d st = (d1, st1)" by (cases "regex_rule env sb m d st")
  with 1[of d st] have d1: "d1 = (if sb_regex sb \<noteq> [] \<and> regex_verdict env (sb_regex sb) m = Some False
                    then d\<lparr>d_add := False, d_delete := True\<rparr> else d)" by simp
  show ?thesis
    using Some r 2[of d1 st1] d1
    by (simp add: regex_rules_def pure_regex_rules_def Let_def)
qed

lemma decision_pure:
  "fst (handle_starboard_decision env sb msg author points message st) =
     decision_of env sb msg author points message"
  using regex_rules_pure[of env sb message "rules_before_regex sb msg author points message" st]
  by (simp add: handle_starboard_decision_split decision_of_def case_prod_beta)

lemma points_of_eq:
  "handle_starboard_points db sb msg link = Inr (points_of db sb msg link)"
proof -
  obtain p where "calculate_points db msg sb = Inr p" using calculate_points_returns by blast
  then show ?thesis
    by (cases link; cases "msg_frozen msg") (simp_all add: points_of_def handle_starboard_points_def)
qed

lemma action_rendered:
  "handle_starboard_action env sb msg points message d sm st =
     (if d_delete d \<and> sm \<noteq> None then
        (case sm of
           None \<Rightarrow> (Returned, st)
         | Some sm' \<Rightarrow>
             let st1 = delete_starboard_message (dm_id sm') st;
                 st2 = emit (Remote_delete (dm_id sm')) st1
             in (case message_delete (st_world st2) sm' of
                   Inr w \<Rightarrow> (Returned, st2\<lparr>st_world := w\<rparr>)
                 | Inl NotFound \<Rightarrow> (Returned, st2)
                 | Inl err \<Rightarrow> (Raised err, st2)))
      else if \<not> d_delete d then
        (case rendered env sb message (st_world st) of
           Inl err \<Rightarrow> (Raised err, st)
         | Inr (emb, attachments) \<Rightarrow>
             (case sm of
                   None \<Rightarrow>
                     (case message of
                        None \<Rightarrow> (Returned, st)
                      | Some m \<Rightarrow>
                          if d_add d
                          then send_mirror env sb msg points m
                                 (plain_text env sb msg points d) emb attachments st
                          else (Returned, st))
                 | Some sm' \<Rightarrow>
                     (case message of
                        Some m \<Rightarrow>
                          if d_edit d then edit_mirror sm' (plain_text env sb msg points d) emb st
                          else edit_mirror sm' (plain_text env sb msg points d) None st
                      | None \<Rightarrow> edit_mirror sm' (plain_text env sb msg points d) None st)))
      else (Returned, st))"
  unfolding handle_starboard_action_def rendered_def Let_def by (rule refl)

lemma action_none_quiet:
  assumes "\<not> send_happens env sb d message (st_world st)"
  shows "st_db (snd (handle_starboard_action env sb msg points message d None st)) = st_db st"
    and "st_world (snd (handle_starboard_action env sb msg points message d None st)) = st_world st"
proof -
  have "st_db (snd (handle_starboard_action env sb msg points message d None st)) = st_db st \<and>
        st_world (snd (handle_starboard_action env sb msg points message d None st)) = st_world st"
  proof (cases "rendered env sb message (st_world st)")
    case (Inl err)
    then show ?thesis by (simp add: action_rendered)
  next
    case (Inr r)
    obtain emb files where r: "r = (emb, files)" by (cases r)
    show ?thesis
    proof (cases message)
      case None
      with Inr r show ?thesis by (simp add: action_rendered)
    next
      case (Some m)
      show ?thesis
      proof (cases "\<not> d_delete d \<and> d_add d")
        case True
        with assms Some Inr have "\<not> w_can_send (st_world st) (sb_id sb)"
          by (simp add: send_happens_def)
        with True Some Inr r show ?thesis
          by (simp add: action_rendered send_mirror_forbidden)
      next
        case False
        with Some Inr r show ?thesis by (auto simp: action_rendered)
      qed
    qed
  qed
  then show "st_db (snd (handle_starboard_action env sb msg points message d None st)) = st_db st"
    and "st_world (snd (handle_starboard_action env sb msg points message d None st)) = st_world st"
    by simp_all
qed

lemma action_delete_effect:
  assumes "d_delete d"
  shows "st_db (snd (handle_starboard_action env sb msg points message d (Some sm) st)) =
           execute_delete (dm_id sm) (st_db st)"
    and "st_world (snd (handle_starboard_action env sb msg points message d (Some sm) st)) =
           (case message_delete (st_world st) sm of Inr w' \<Rightarrow> w' | Inl err \<Rightarrow> st_world st)"
proof -
  have "st_db (snd (handle_starboard_action env sb msg points message d (Some sm) st)) =
           execute_delete (dm_id sm) (st_db st) \<and>
        st_world (snd (handle_starboard_action env sb msg points message d (Some sm) st)) =
           (case message_delete (st_world st) sm of Inr w' \<Rightarrow> w' | Inl err \<Rightarrow> st_world st)"
  proof (cases "message_delete (st_world st) sm")
    case (Inl err)
    with assms show ?thesis
      by (cases err) (simp_all add: action_rendered Let_def emit_def delete_frame)
  next
    case (Inr w)
    with assms show ?thesis
      by (simp add: action_rendered Let_def emit_def delete_frame)
  qed
  then show "st_db (snd (handle_starboard_action env sb msg points message d (Some sm) st)) =
           execute_delete (dm_id sm) (st_db st)"
    and "st_world (snd (handle_starboard_action env sb msg points message d (Some sm) st)) =
           (case message_delete (st_world st) sm of Inr w' \<Rightarrow> w' | Inl err \<Rightarrow> st_world st)"
    by simp_all
qed

lemma edit_mirror_effect:
  "st_db (snd (edit_mirror sm t emb st)) = st_db st"
  "st_world (snd (edit_mirror sm t emb st)) =
     (case message_edit (st_world st) sm t emb of Inr w' \<Rightarrow> w' | Inl err \<Rightarrow> st_world st)"
proof -
  have "st_db (snd (edit_mirror sm t emb st)) = st_db st \<and>
    st_world (snd (edit_mirror sm t emb st)) =
     (case message_edit (st_world st) sm t emb of Inr w' \<Rightarrow> w' | Inl err \<Rightarrow> st_world st)"
  proof (cases "message_edit (st_world st) sm t emb")
    case (Inl err)
    then show ?thesis by (cases err) (simp_all add: edit_mirror_def Let_def emit_def)
  next
    case (Inr w)
    then show ?thesis by (simp add: edit_mirror_def Let_def emit_def)
  qed
  then show "st_db (snd (edit_mirror sm t emb st)) = st_db st"
    "st_world (snd (edit_mirror sm t emb st)) =
     (case message_edit (st_world st) sm t emb of Inr w' \<Rightarrow> w' | Inl err \<Rightarrow> st_world st)"
    by simp_all
qed

lemma action_edit_effect:
  assumes "\<not> d_delete d"
  shows "(st_db (snd (handle_starboard_action env sb msg points message d (Some sm) st)),
          st_world (snd (handle_starboard_action env sb msg points message d (Some sm) st))) =
         (case rendered env sb message (st_world st) of
            Inl err \<Rightarrow> (st_db st, st_world st)
          | Inr (emb, files) \<Rightarrow>
              (st_db st,
               (case message_edit (st_world st) sm (plain_text env sb msg points d)
                       (if message \<noteq> None \<and> d_edit d then emb else None) of
                  Inr w' \<Rightarrow> w'
                | Inl err \<Rightarrow> st_world st)))"
proof (cases "rendered env sb message (st_world st)")
  case (Inl err)
  with assms show ?thesis by (simp add: action_rendered)
next
  case (Inr r)
  obtain emb files where r: "r = (emb, files)" by (cases r)
  with assms Inr show ?thesis
    by (cases message) (simp_all add: action_rendered edit_mirror_effect)
qed

end
